theory Spec2Isabelle
  imports Main "HOL-Library.Word"
begin

section \<open>JavaScript strings and the library functions the script calls\<close>

text \<open>
  A JavaScript string is a sequence of UTF-16 code units. Literals of the script are
  written \<open>ascii ''...''\<close>.
\<close>

type_synonym code_unit = "16 word"
type_synonym js_string = "code_unit list"

definition ascii :: "string \<Rightarrow> js_string" where
  "ascii s = map of_char s"

text \<open>
  \<^verbatim>\<open>String.prototype.trim\<close> removes WhiteSpace and LineTerminator code points from both
  ends (ECMAScript: TAB, VT, FF, ZWNBSP, the Unicode space separators, LF, CR, LS, PS);
  all of them are single code units.
\<close>

definition isWhiteSpace :: "code_unit \<Rightarrow> bool" where
  "isWhiteSpace c \<longleftrightarrow>
     c \<in> {0x09, 0x0A, 0x0B, 0x0C, 0x0D, 0x20, 0xA0, 0x1680, 0x2028, 0x2029,
          0x202F, 0x205F, 0x3000, 0xFEFF}
     \<or> (0x2000 \<le> c \<and> c \<le> 0x200A)"

definition trim :: "js_string \<Rightarrow> js_string" where
  "trim s = rev (dropWhile isWhiteSpace (rev (dropWhile isWhiteSpace s)))"

text \<open>\<^verbatim>\<open>String.prototype.endsWith\<close>: a comparison of code units, hence case-sensitive.\<close>

definition endsWith :: "js_string \<Rightarrow> js_string \<Rightarrow> bool" where
  "endsWith s search \<longleftrightarrow>
     length search \<le> length s \<and> drop (length s - length search) s = search"

text \<open>
  Node's \<^verbatim>\<open>path\<close> module (POSIX), on the arguments the script gives it.
  \<^verbatim>\<open>__dirname\<close> is absolute and normalised, and the names \<^verbatim>\<open>fs.readdir\<close> returns are
  single path segments (non-empty, without \<^verbatim>\<open>/\<close>, never \<^verbatim>\<open>.\<close> or \<^verbatim>\<open>..\<close>), so
  \<^verbatim>\<open>path.resolve(dir, seg)\<close> and \<^verbatim>\<open>path.join(dir, seg)\<close> put one separator between
  the two; only the root directory already ends with it.
\<close>

definition path_resolve :: "js_string \<Rightarrow> js_string \<Rightarrow> js_string" where
  "path_resolve dir seg = (if dir = ascii ''/'' then dir @ seg else dir @ ascii ''/'' @ seg)"

definition path_join :: "js_string \<Rightarrow> js_string \<Rightarrow> js_string" where
  "path_join dir seg = (if dir = ascii ''/'' then dir @ seg else dir @ ascii ''/'' @ seg)"

text \<open>
  \<^verbatim>\<open>path.parse(base).name\<close> for a single segment: the segment without its extension.
  The extension runs from the last \<^verbatim>\<open>.\<close> to the end; there is none when the segment
  has no \<^verbatim>\<open>.\<close>, when its only \<^verbatim>\<open>.\<close> is its first character (\<^verbatim>\<open>path.extname('.index')\<close>
  is the empty string), or when the segment is \<^verbatim>\<open>..\<close>.
\<close>

fun lastIndexOf :: "code_unit \<Rightarrow> js_string \<Rightarrow> nat option" where
  "lastIndexOf c [] = None"
| "lastIndexOf c (x # xs) =
     (case lastIndexOf c xs of
        Some i \<Rightarrow> Some (Suc i)
      | None \<Rightarrow> if x = c then Some 0 else None)"

definition path_extname :: "js_string \<Rightarrow> js_string" where
  "path_extname base =
     (case lastIndexOf 0x2E base of
        None \<Rightarrow> []
      | Some i \<Rightarrow> if i = 0 \<or> base = ascii ''..'' then [] else drop i base)"

definition path_parse_name :: "js_string \<Rightarrow> js_string" where
  "path_parse_name base = take (length base - length (path_extname base)) base"

section \<open>The world the script runs in\<close>

text \<open>
  A thrown JavaScript \<^verbatim>\<open>Error\<close>, by its \<^verbatim>\<open>message\<close>: what \<^verbatim>\<open>fs\<close>, \<^verbatim>\<open>child_process\<close>
  and the API client throw are \<^verbatim>\<open>Error\<close> objects, and the script reads nothing else of them.
\<close>

datatype error = Error (message: js_string)

text \<open>A \<^verbatim>\<open>fs.Dirent\<close>: an entry's name and whether it is a directory.\<close>

record dirent =
  dirent_name :: js_string
  isDirectory :: bool

text \<open>
  The payload \<^verbatim>\<open>{ title, html, tags: [{ name: tag }], status }\<close> and the options
  \<^verbatim>\<open>{ source: 'html' }\<close> of \<^verbatim>\<open>api.posts.add\<close>.
\<close>

datatype tag_object = Tag (tag_name: js_string)

record post =
  post_title :: js_string
  post_html :: js_string
  post_tags :: "tag_object list"
  post_status :: js_string

record options =
  source :: js_string

text \<open>The post methods of the Ghost Admin API client; the script calls \<^verbatim>\<open>add\<close>.\<close>

datatype api_request =
    PostsAdd post options
  | PostsEdit post
  | PostsBrowse
  | PostsRead js_string
  | PostsDelete js_string

text \<open>What a run does to the outside, in order.\<close>

datatype js_value = Undefined | Str js_string | Array "js_string list"

datatype event =
    ConsoleLog "js_value list"
  | ConsoleError "js_value list"
  | ReadDir js_string
  | ExecSync js_string
  | Api api_request

text \<open>
  The script's inputs: \<^verbatim>\<open>__dirname\<close>, \<^verbatim>\<open>process.env\<close> (after \<^verbatim>\<open>dotenv.config()\<close>), the file system,
  the converter and the remote API. The file system and the converter answer by path and command;
  the remote API has a state of its own (type \<open>'a\<close>), so its answer to a request may
  depend on everything sent before. \<^verbatim>\<open>execSync\<close> returns the command's standard output
  or throws; \<^verbatim>\<open>api.posts.add\<close> resolves to a response (here its JSON text) or rejects.
\<close>

record 'a world =
  dirname :: js_string
  process_env :: "js_string \<Rightarrow> js_string option"
  fs_readdir :: "js_string \<Rightarrow> error + dirent list"
  execSync :: "js_string \<Rightarrow> error + js_string"
  api_posts_add :: "'a \<Rightarrow> post \<Rightarrow> options \<Rightarrow> (error + js_string) \<times> 'a"

text \<open>
  The configuration \<^verbatim>\<open>{ url, key, version }\<close> the module hands to \<^verbatim>\<open>new GhostAdminApi\<close>;
  \<^verbatim>\<open>url\<close> and \<^verbatim>\<open>key\<close> are \<^verbatim>\<open>undefined\<close> when the variable is not set.
\<close>

record client_config =
  config_url :: "js_string option"
  config_key :: "js_string option"
  config_version :: js_string

section \<open>bulk\_uploader.js\<close>

text \<open>
  The functions of the script. \<open>main\<close> and the functions it calls run once the module's
  set-up (loading \<^verbatim>\<open>.env\<close>, constructing the API client) has succeeded; \<open>script\<close> below
  is the module with its set-up. An async function returns \<open>Inr\<close> when its promise resolves
  and \<open>Inl\<close> when it rejects, together with the API's new state and the events it caused,
  in order.
\<close>

definition logEnvironmentVariables :: "'a world \<Rightarrow> event list" where
  "logEnvironmentVariables w =
     [ConsoleLog [Str (ascii ''GHOST_API_URL:''),
                  (case process_env w (ascii ''GHOST_API_URL'') of
                     None \<Rightarrow> Undefined | Some v \<Rightarrow> Str v)],
      ConsoleLog [Str (ascii ''GHOST_ADMIN_API_KEY:''),
                  (case process_env w (ascii ''GHOST_ADMIN_API_KEY'') of
                     None \<Rightarrow> Str (ascii ''Missing'')
                   | Some v \<Rightarrow> if v = [] then Str (ascii ''Missing'') else Str (ascii ''Present''))]]"

definition pandoc_command :: "js_string \<Rightarrow> js_string" where
  "pandoc_command filePath =
     ascii ''pandoc -f markdown -t html \"'' @ filePath @ ascii ''\"''"

definition convertMarkdownToHtml :: "'a world \<Rightarrow> js_string \<Rightarrow> js_string option \<times> event list" where
  "convertMarkdownToHtml w filePath =
     (case execSync w (pandoc_command filePath) of
        Inr htmlContent \<Rightarrow>
          (Some (trim htmlContent),
           [ConsoleLog [Str (ascii ''Converting file:''), Str filePath],
            ExecSync (pandoc_command filePath)])
      | Inl err \<Rightarrow>
          (None,
           [ConsoleLog [Str (ascii ''Converting file:''), Str filePath],
            ExecSync (pandoc_command filePath),
            ConsoleError [Str (ascii ''Error converting file to HTML: '' @ message err)]]))"

definition publishPost ::
  "'a world \<Rightarrow> 'a \<Rightarrow> js_string \<Rightarrow> js_string \<Rightarrow> js_string \<Rightarrow> js_string
     \<Rightarrow> (error + unit) \<times> 'a \<times> event list" where
  "publishPost w a title html tag status =
     (let payload = \<lparr>post_title = title, post_html = html, post_tags = [Tag tag],
                     post_status = status\<rparr>;
          opts = \<lparr>source = ascii ''html''\<rparr>;
          announce = ConsoleLog [Str (ascii ''Publishing post: \"'' @ title
                        @ ascii ''\" with status: \"'' @ status @ ascii ''\"'')]
      in case api_posts_add w a payload opts of
           (Inr response, a') \<Rightarrow>
             (Inr (), a',
              [announce, Api (PostsAdd payload opts),
               ConsoleLog [Str (ascii ''Post \"'' @ title @ ascii ''\" published successfully.''),
                           Str response]])
         | (Inl err, a') \<Rightarrow>
             (Inr (), a',
              [announce, Api (PostsAdd payload opts),
               ConsoleError [Str (ascii ''Failed to publish post \"'' @ title @ ascii ''\": ''
                               @ message err)]]))"

text \<open>Sequencing: the events of what ran before, then the rest of the run.\<close>

definition after :: "event list \<Rightarrow> (error + unit) \<times> 'a \<times> event list \<Rightarrow> (error + unit) \<times> 'a \<times> event list" where
  "after ev k = (case k of (r, a, ev') \<Rightarrow> (r, a, ev @ ev'))"

text \<open>
  The inner loop \<^verbatim>\<open>for (const mdFile of mdFiles)\<close>. \<^verbatim>\<open>if (htmlData)\<close> is false for
  \<^verbatim>\<open>null\<close> and for the empty string. A rejection of \<^verbatim>\<open>publishPost\<close> would leave the loop.
\<close>

fun forMdFiles ::
  "'a world \<Rightarrow> js_string \<Rightarrow> js_string \<Rightarrow> js_string \<Rightarrow> js_string list \<Rightarrow> 'a
     \<Rightarrow> (error + unit) \<times> 'a \<times> event list" where
  "forMdFiles w tag tagPath status [] a = (Inr (), a, [])"
| "forMdFiles w tag tagPath status (mdFile # rest) a =
     (let title = path_parse_name mdFile;
          markdownPath = path_join tagPath mdFile
      in case convertMarkdownToHtml w markdownPath of
           (None, ev1) \<Rightarrow> after ev1 (forMdFiles w tag tagPath status rest a)
         | (Some htmlData, ev1) \<Rightarrow>
             if htmlData \<noteq> [] then
               (case publishPost w a title htmlData tag status of
                  (Inl err, a', ev2) \<Rightarrow> (Inl err, a', ev1 @ ev2)
                | (Inr _, a', ev2) \<Rightarrow>
                    after (ev1 @ ev2) (forMdFiles w tag tagPath status rest a'))
             else after ev1 (forMdFiles w tag tagPath status rest a))"

text \<open>
  The outer loop \<^verbatim>\<open>for (const tagDir of directories)\<close>. A failing
  \<^verbatim>\<open>fs.readdir(tagPath)\<close> throws out of the loop.
\<close>

fun forTagDirs ::
  "'a world \<Rightarrow> js_string \<Rightarrow> js_string \<Rightarrow> dirent list \<Rightarrow> 'a
     \<Rightarrow> (error + unit) \<times> 'a \<times> event list" where
  "forTagDirs w srcDir status [] a = (Inr (), a, [])"
| "forTagDirs w srcDir status (tagDir # rest) a =
     (let tag = dirent_name tagDir;
          tagPath = path_join srcDir tag
      in case fs_readdir w tagPath of
           Inl err \<Rightarrow> (Inl err, a, [ReadDir tagPath])
         | Inr entries \<Rightarrow>
             (let mdFiles = filter (\<lambda>file. endsWith file (ascii ''.md'')) (map dirent_name entries);
                  ev1 = [ReadDir tagPath,
                         ConsoleLog [Str (ascii ''Markdown Files in '' @ tagPath @ ascii '':''),
                                     Array mdFiles]]
              in case forMdFiles w tag tagPath status mdFiles a of
                   (Inl err, a', ev2) \<Rightarrow> (Inl err, a', ev1 @ ev2)
                 | (Inr _, a', ev2) \<Rightarrow> after (ev1 @ ev2) (forTagDirs w srcDir status rest a')))"

definition srcDir_of :: "'a world \<Rightarrow> js_string" where
  "srcDir_of w = path_resolve (dirname w) (ascii ''src'')"

text \<open>\<^verbatim>\<open>process.env.POST_STATUS || 'draft'\<close>: the default also replaces an empty value.\<close>

definition status_of :: "'a world \<Rightarrow> js_string" where
  "status_of w =
     (case process_env w (ascii ''POST_STATUS'') of
        None \<Rightarrow> ascii ''draft''
      | Some v \<Rightarrow> if v = [] then ascii ''draft'' else v)"

definition publishPosts :: "'a world \<Rightarrow> 'a \<Rightarrow> (error + unit) \<times> 'a \<times> event list" where
  "publishPosts w a =
     (let srcDir = srcDir_of w;
          status = status_of w;
          ev0 = [ConsoleLog [Str (ascii ''Source Directory:''), Str srcDir]]
      in case fs_readdir w srcDir of
           Inl err \<Rightarrow>
             (Inr (), a,
              ev0 @ [ReadDir srcDir,
                     ConsoleError [Str (ascii ''Error processing data directory:''),
                                   Str (message err)]])
         | Inr tagDirs \<Rightarrow>
             (let directories = filter isDirectory tagDirs;
                  ev1 = ev0 @ [ReadDir srcDir,
                               ConsoleLog [Str (ascii ''Tag Directories:''),
                                           Array (map dirent_name directories)]]
              in case forTagDirs w srcDir status directories a of
                   (Inl err, a', ev2) \<Rightarrow>
                     (Inr (), a',
                      ev1 @ ev2 @ [ConsoleError [Str (ascii ''Error processing data directory:''),
                                                 Str (message err)]])
                 | (Inr _, a', ev2) \<Rightarrow> (Inr (), a', ev1 @ ev2)))"

text \<open>
  The main IIFE. Node ends the process with code 1 when its promise rejects (an
  unhandled rejection) and with code 0 otherwise: the script never sets an exit code.
\<close>

definition main :: "'a world \<Rightarrow> 'a \<Rightarrow> (error + unit) \<times> 'a \<times> event list" where
  "main w a = after (logEnvironmentVariables w) (publishPosts w a)"

text \<open>
  The module as a whole (lines 25-32, then the IIFE). \<^verbatim>\<open>new GhostAdminApi\<close> runs at load
  time, outside any \<^verbatim>\<open>try\<close>: the client library validates the configuration and throws
  when it refuses it, and the process then ends before the IIFE starts, with nothing
  logged or listed. The constructor belongs to the library, so it is a parameter here.
\<close>

definition client_config_of :: "'a world \<Rightarrow> client_config" where
  "client_config_of w =
     \<lparr>config_url = process_env w (ascii ''GHOST_API_URL''),
      config_key = process_env w (ascii ''GHOST_ADMIN_API_KEY''),
      config_version = ascii ''v5.0''\<rparr>"

definition script ::
  "(client_config \<Rightarrow> error + unit) \<Rightarrow> 'a world \<Rightarrow> 'a \<Rightarrow> (error + unit) \<times> 'a \<times> event list" where
  "script newGhostAdminApi w a =
     (case newGhostAdminApi (client_config_of w) of
        Inl err \<Rightarrow> (Inl err, a, [])
      | Inr _ \<Rightarrow> main w a)"

definition exitCode :: "(error + unit) \<times> 'a \<times> event list \<Rightarrow> nat" where
  "exitCode run = (case fst run of Inl _ \<Rightarrow> 1 | Inr _ \<Rightarrow> 0)"

definition events :: "(error + unit) \<times> 'a \<times> event list \<Rightarrow> event list" where
  "events run = snd (snd run)"

definition api_state :: "(error + unit) \<times> 'a \<times> event list \<Rightarrow> 'a" where
  "api_state run = fst (snd run)"

section \<open>Reading a run\<close>

text \<open>
  Projections of the event list of a run: the requests sent to the API, the converter
  commands run and the directories listed, each in the order of the run.
\<close>

text \<open>The requests sent to the remote API.\<close>

fun api_requests :: "event list \<Rightarrow> api_request list" where
  "api_requests [] = []"
| "api_requests (Api r # es) = r # api_requests es"
| "api_requests (e # es) = api_requests es"

text \<open>The commands handed to \<^verbatim>\<open>execSync\<close>.\<close>

fun exec_commands :: "event list \<Rightarrow> js_string list" where
  "exec_commands [] = []"
| "exec_commands (ExecSync c # es) = c # exec_commands es"
| "exec_commands (e # es) = exec_commands es"

text \<open>The directories handed to \<^verbatim>\<open>fs.readdir\<close>.\<close>

fun fs_reads :: "event list \<Rightarrow> js_string list" where
  "fs_reads [] = []"
| "fs_reads (ReadDir p # es) = p # fs_reads es"
| "fs_reads (e # es) = fs_reads es"



text \<open>The one request \<open>publishPost\<close> sends.\<close>

definition create_post :: "js_string \<Rightarrow> js_string \<Rightarrow> js_string \<Rightarrow> js_string \<Rightarrow> api_request" where
  "create_post title html tag status =
     PostsAdd \<lparr>post_title = title, post_html = html, post_tags = [Tag tag], post_status = status\<rparr>
              \<lparr>source = ascii ''html''\<rparr>"

section \<open>A run computed from its inputs\<close>

text \<open>
  What a run does, read off the file system and the converter alone. The lemmas below
  prove that the events of \<open>main\<close> are exactly these; the API's answers play no part.
\<close>


text \<open>
  The HTML body \<open>forMdFiles\<close> would publish for a Markdown path, if any: the
  converter's trimmed output, unless the converter fails or the trimmed output is empty.
\<close>

definition publishable :: "(js_string \<Rightarrow> error + js_string) \<Rightarrow> js_string \<Rightarrow> js_string option" where
  "publishable exec markdownPath =
     (case exec (pandoc_command markdownPath) of
        Inl _ \<Rightarrow> None
      | Inr out \<Rightarrow> if trim out = [] then None else Some (trim out))"

text \<open>The requests for the Markdown files of one tag directory.\<close>

fun group_requests ::
  "(js_string \<Rightarrow> error + js_string) \<Rightarrow> js_string \<Rightarrow> js_string \<Rightarrow> js_string \<Rightarrow> js_string list
     \<Rightarrow> api_request list" where
  "group_requests exec tag tagPath status [] = []"
| "group_requests exec tag tagPath status (f # fs) =
     (case publishable exec (path_join tagPath f) of
        None \<Rightarrow> group_requests exec tag tagPath status fs
      | Some html \<Rightarrow>
          create_post (path_parse_name f) html tag status # group_requests exec tag tagPath status fs)"

text \<open>
  The tag groups a run reaches: each directory's name with its \<^verbatim>\<open>.md\<close> entries, up to the
  first directory that cannot be listed.
\<close>

fun scanner ::
  "(js_string \<Rightarrow> error + dirent list) \<Rightarrow> js_string \<Rightarrow> dirent list
     \<Rightarrow> (js_string \<times> js_string list) list" where
  "scanner readdir srcDir [] = []"
| "scanner readdir srcDir (tagDir # rest) =
     (case readdir (path_join srcDir (dirent_name tagDir)) of
        Inl _ \<Rightarrow> []
      | Inr entries \<Rightarrow>
          (dirent_name tagDir, filter (\<lambda>file. endsWith file (ascii ''.md'')) (map dirent_name entries))
            # scanner readdir srcDir rest)"

text \<open>The tag directories a run lists: up to and including the first that fails.\<close>

fun attempted ::
  "(js_string \<Rightarrow> error + dirent list) \<Rightarrow> js_string \<Rightarrow> dirent list \<Rightarrow> js_string list" where
  "attempted readdir srcDir [] = []"
| "attempted readdir srcDir (tagDir # rest) =
     path_join srcDir (dirent_name tagDir)
       # (case readdir (path_join srcDir (dirent_name tagDir)) of
            Inl _ \<Rightarrow> []
          | Inr _ \<Rightarrow> attempted readdir srcDir rest)"

text \<open>Every directory of the list can be listed.\<close>

fun readable ::
  "(js_string \<Rightarrow> error + dirent list) \<Rightarrow> js_string \<Rightarrow> dirent list \<Rightarrow> bool" where
  "readable readdir srcDir [] = True"
| "readable readdir srcDir (tagDir # rest) =
     (case readdir (path_join srcDir (dirent_name tagDir)) of
        Inl _ \<Rightarrow> False
      | Inr _ \<Rightarrow> readable readdir srcDir rest)"

text \<open>The converter commands for one tag group.\<close>

definition group_commands :: "js_string \<Rightarrow> js_string \<times> js_string list \<Rightarrow> js_string list" where
  "group_commands srcDir g =
     map (\<lambda>f. pandoc_command (path_join (path_join srcDir (fst g)) f)) (snd g)"

definition tag_requests ::
  "(js_string \<Rightarrow> error + js_string) \<Rightarrow> js_string \<Rightarrow> js_string \<Rightarrow> js_string \<times> js_string list
     \<Rightarrow> api_request list" where
  "tag_requests exec srcDir status g =
     group_requests exec (fst g) (path_join srcDir (fst g)) status (snd g)"

definition tagGroups :: "'a world \<Rightarrow> (js_string \<times> js_string list) list" where
  "tagGroups w =
     (case fs_readdir w (srcDir_of w) of
        Inl _ \<Rightarrow> []
      | Inr tagDirs \<Rightarrow> scanner (fs_readdir w) (srcDir_of w) (filter isDirectory tagDirs))"

definition listed :: "'a world \<Rightarrow> js_string list" where
  "listed w =
     srcDir_of w #
       (case fs_readdir w (srcDir_of w) of
          Inl _ \<Rightarrow> []
        | Inr tagDirs \<Rightarrow> attempted (fs_readdir w) (srcDir_of w) (filter isDirectory tagDirs))"

text \<open>
  Claim C1 in the spec's words: a file name with the \<^verbatim>\<open>.md\<close> extension stripped, that is,
  without its last three code units.
\<close>

definition without_md_extension :: "js_string \<Rightarrow> js_string" where
  "without_md_extension file = take (length file - length (ascii ''.md'')) file"

section \<open>Example worlds\<close>

text \<open>Concrete inputs on which the theorems are evaluated.\<close>

text \<open>Directory entries and other entries, by name.\<close>

definition directory :: "string \<Rightarrow> dirent" where
  "directory n = \<lparr>dirent_name = ascii n, isDirectory = True\<rparr>"

definition regular :: "string \<Rightarrow> dirent" where
  "regular n = \<lparr>dirent_name = ascii n, isDirectory = False\<rparr>"

text \<open>
  \<^verbatim>\<open>/app/src\<close> holds \<^verbatim>\<open>tagA\<close> (a post, a text file, a Markdown file the converter
  rejects, a Markdown file that converts to blank output, and \<^verbatim>\<open>POST.MD\<close>), a plain file and
  \<^verbatim>\<open>tagB\<close> (one post). \<^verbatim>\<open>POST_STATUS\<close> is \<^verbatim>\<open>published\<close>. The API counts the requests it
  has seen and rejects the first.
\<close>

definition demo_world :: "nat world" where
  "demo_world =
     \<lparr>dirname = ascii ''/app'',
      process_env = (\<lambda>k. if k = ascii ''POST_STATUS'' then Some (ascii ''published'') else None),
      fs_readdir = (\<lambda>p.
        if p = ascii ''/app/src'' then
          Inr [directory ''tagA'', regular ''README.txt'', directory ''tagB'']
        else if p = ascii ''/app/src/tagA'' then
          Inr [regular ''post1.md'', regular ''notes.txt'', regular ''broken.md'',
               regular ''blank.md'', regular ''POST.MD'']
        else if p = ascii ''/app/src/tagB'' then Inr [regular ''post2.md'']
        else Inl (Error (ascii ''ENOENT''))),
      execSync = (\<lambda>c.
        if c = pandoc_command (ascii ''/app/src/tagA/post1.md'') then
          Inr (ascii ''<p>one</p>'' @ [0x0A])
        else if c = pandoc_command (ascii ''/app/src/tagA/blank.md'') then Inr [0x20, 0x0A]
        else if c = pandoc_command (ascii ''/app/src/tagB/post2.md'') then Inr (ascii ''<p>two</p>'')
        else Inl (Error (ascii ''pandoc failed''))),
      api_posts_add = (\<lambda>n p opts.
        (if n = 0 then Inl (Error (ascii ''rejected'')) else Inr (ascii ''{}''), Suc n))\<rparr>"

text \<open>One tag directory \<^verbatim>\<open>notes\<close> holding a file named \<^verbatim>\<open>.md\<close>.\<close>

definition hidden_file_world :: "nat world" where
  "hidden_file_world =
     \<lparr>dirname = ascii ''/app'',
      process_env = (\<lambda>k. None),
      fs_readdir = (\<lambda>p.
        if p = ascii ''/app/src'' then Inr [directory ''notes'']
        else if p = ascii ''/app/src/notes'' then Inr [regular ''.md'']
        else Inl (Error (ascii ''ENOENT''))),
      execSync = (\<lambda>c. Inr (ascii ''<p>hi</p>'')),
      api_posts_add = (\<lambda>n p opts. (Inr (ascii ''{}''), Suc n))\<rparr>"

text \<open>The content root cannot be listed.\<close>

definition no_src_world :: "nat world" where
  "no_src_world = demo_world\<lparr>fs_readdir := (\<lambda>p. Inl (Error (ascii ''ENOENT'')))\<rparr>"

text \<open>As \<open>demo_world\<close>, but \<^verbatim>\<open>tagA\<close> cannot be listed.\<close>

definition locked_world :: "nat world" where
  "locked_world =
     demo_world\<lparr>fs_readdir := (\<lambda>p.
        if p = ascii ''/app/src'' then
          Inr [directory ''tagA'', regular ''README.txt'', directory ''tagB'']
        else if p = ascii ''/app/src/tagA'' then Inl (Error (ascii ''EACCES''))
        else if p = ascii ''/app/src/tagB'' then Inr [regular ''post2.md'']
        else Inl (Error (ascii ''ENOENT'')))\<rparr>"

text \<open>\<^verbatim>\<open>POST_STATUS\<close> is set to the empty string.\<close>

definition empty_status_world :: "nat world" where
  "empty_status_world =
     \<lparr>dirname = ascii ''/app'',
      process_env = (\<lambda>k. if k = ascii ''POST_STATUS'' then Some [] else None),
      fs_readdir = (\<lambda>p.
        if p = ascii ''/app/src'' then Inr [directory ''tagA'']
        else if p = ascii ''/app/src/tagA'' then Inr [regular ''post1.md'']
        else Inl (Error (ascii ''ENOENT''))),
      execSync = (\<lambda>c. Inr (ascii ''<p>one</p>'')),
      api_posts_add = (\<lambda>n p opts. (Inr (ascii ''{}''), Suc n))\<rparr>"


text \<open>
  A well-formed client configuration: a URL with its protocol and no trailing slash, and
  a key of 24 and 64 hexadecimal digits.
\<close>

definition blog_url :: js_string where
  "blog_url = ascii ''https://blog.example.com''"

definition admin_key :: js_string where
  "admin_key = ascii
     ''0123456789abcdef01234567:0123456789abcdef0123456789abcdef0123456789abcdef0123456789abcdef''"

text \<open>
  A client constructor for the examples: it accepts the well-formed configuration above
  and throws for every other one, in particular when the URL or the key is not set.
\<close>

definition strict_client :: "client_config \<Rightarrow> error + unit" where
  "strict_client c =
     (if config_url c = Some blog_url \<and> config_key c = Some admin_key
         \<and> config_version c = ascii ''v5.0''
      then Inr ()
      else Inl (Error (ascii ''@tryghost/admin-api Config Invalid'')))"

text \<open>As \<open>demo_world\<close>, with the client configuration set.\<close>

definition blog_world :: "nat world" where
  "blog_world =
     demo_world\<lparr>process_env := (\<lambda>k.
        if k = ascii ''GHOST_API_URL'' then Some blog_url
        else if k = ascii ''GHOST_ADMIN_API_KEY'' then Some admin_key
        else if k = ascii ''POST_STATUS'' then Some (ascii ''published'')
        else None)\<rparr>"

text \<open>
  The client configuration is set, and \<^verbatim>\<open>CONTENT_ROOT\<close> names \<^verbatim>\<open>/data\<close>, where the content
  lies; the script is in \<^verbatim>\<open>/app\<close>, which has no \<^verbatim>\<open>src\<close>.
\<close>

definition configured_env :: "js_string \<Rightarrow> js_string option" where
  "configured_env k =
     (if k = ascii ''GHOST_API_URL'' then Some blog_url
      else if k = ascii ''GHOST_ADMIN_API_KEY'' then Some admin_key
      else if k = ascii ''CONTENT_ROOT'' then Some (ascii ''/data'')
      else None)"

definition configured_world :: "nat world" where
  "configured_world =
     \<lparr>dirname = ascii ''/app'',
      process_env = configured_env,
      fs_readdir = (\<lambda>p.
        if p = ascii ''/data'' then Inr [directory ''tagA'']
        else if p = ascii ''/data/tagA'' then Inr [regular ''post1.md'']
        else Inl (Error (ascii ''ENOENT''))),
      execSync = (\<lambda>c. Inr (ascii ''<p>one</p>'')),
      api_posts_add = (\<lambda>n p opts. (Inr (ascii ''{}''), Suc n))\<rparr>"

section \<open>Strings and paths\<close>

text \<open>Facts about \<open>endsWith\<close>, \<open>path_parse_name\<close> and \<open>trim\<close>.\<close>

lemma ascii_dot_md: "ascii ''.md'' = [0x2E, 0x6D, 0x64]"
  by (simp add: ascii_def)

lemma lastIndexOf_append:
  "lastIndexOf c (xs @ ys) =
     (case lastIndexOf c ys of
        Some i \<Rightarrow> Some (length xs + i)
      | None \<Rightarrow> lastIndexOf c xs)"
  by (induction xs) (auto split: option.splits)

lemma endsWith_append: "endsWith s search \<longleftrightarrow> (\<exists>stem. s = stem @ search)"
proof
  assume "endsWith s search"
  then have "s = take (length s - length search) s @ search"
    by (metis append_take_drop_id endsWith_def)
  then show "\<exists>stem. s = stem @ search" ..
next
  assume "\<exists>stem. s = stem @ search"
  then show "endsWith s search" by (auto simp: endsWith_def)
qed

lemma path_parse_name_stem:
  "path_parse_name (stem @ ascii ''.md'') = (if stem = [] then ascii ''.md'' else stem)"
proof -
  have idx: "lastIndexOf 0x2E (stem @ ascii ''.md'') = Some (length stem)"
    by (simp add: lastIndexOf_append ascii_dot_md)
  have two: "stem @ ascii ''.md'' \<noteq> ascii ''..''"
    by (simp add: ascii_def)
  show ?thesis
    by (simp add: path_parse_name_def path_extname_def idx two)
qed

text \<open>
  The title of a file the scanner selects: its name without \<^verbatim>\<open>.md\<close>, except for the file
  named \<^verbatim>\<open>.md\<close>, which has no extension for \<^verbatim>\<open>path.parse\<close>.
\<close>

lemma path_parse_name_markdown:
  assumes "endsWith file (ascii ''.md'')"
  shows "path_parse_name file =
           (if file = ascii ''.md'' then ascii ''.md'' else without_md_extension file)"
proof -
  from assms obtain stem where stem: "file = stem @ ascii ''.md''"
    by (auto simp: endsWith_append)
  show ?thesis
    by (simp add: stem path_parse_name_stem without_md_extension_def)
qed





lemma concat_map_mem: "g \<in> set gs \<Longrightarrow> x \<in> set (F g) \<Longrightarrow> x \<in> set (concat (map F gs))"
  by auto


section \<open>The loops\<close>

text \<open>
  \<open>publishPost\<close> always resolves, so the inner loop never leaves early; the outer loop
  leaves at the first directory that cannot be listed.
\<close>

lemma api_requests_append: "api_requests (xs @ ys) = api_requests xs @ api_requests ys"
  by (induction xs rule: api_requests.induct) simp_all

lemma exec_commands_append: "exec_commands (xs @ ys) = exec_commands xs @ exec_commands ys"
  by (induction xs rule: exec_commands.induct) simp_all

lemma fs_reads_append: "fs_reads (xs @ ys) = fs_reads xs @ fs_reads ys"
  by (induction xs rule: fs_reads.induct) simp_all

lemma Api_mem: "Api req \<in> set evs \<longleftrightarrow> req \<in> set (api_requests evs)"
  by (induction evs rule: api_requests.induct) auto

lemma ExecSync_mem: "ExecSync c \<in> set evs \<longleftrightarrow> c \<in> set (exec_commands evs)"
  by (induction evs rule: exec_commands.induct) auto

lemma ReadDir_mem: "ReadDir p \<in> set evs \<longleftrightarrow> p \<in> set (fs_reads evs)"
  by (induction evs rule: fs_reads.induct) auto

lemma events_after: "events (after ev k) = ev @ events k"
  by (cases k) (simp add: events_def after_def)

lemma fst_after: "fst (after ev k) = fst k"
  by (cases k) (simp add: after_def)


lemma publishPost_run:
  assumes "publishPost w a title html tag status = (r, a', ev)"
  shows "r = Inr ()" and "api_requests ev = [create_post title html tag status]"
    and "exec_commands ev = []" and "fs_reads ev = []"
  using assms
  by (auto simp: publishPost_def create_post_def Let_def split: prod.splits sum.splits)


lemma forMdFiles_resolves: "fst (forMdFiles w tag tagPath status mdFiles a) = Inr ()"
proof (induction mdFiles arbitrary: a)
  case Nil
  show ?case by simp
next
  case (Cons f fs)
  show ?case
    by (auto simp: Let_def fst_after Cons.IH split: prod.splits option.splits sum.splits dest: publishPost_run)
qed


lemma forMdFiles_exec:
  "exec_commands (events (forMdFiles w tag tagPath status mdFiles a)) =
     map (\<lambda>f. pandoc_command (path_join tagPath f)) mdFiles"
proof (induction mdFiles arbitrary: a)
  case Nil
  show ?case by (simp add: events_def)
next
  case (Cons f fs)
  show ?case
    by (auto simp: Let_def Cons.IH events_after exec_commands_append convertMarkdownToHtml_def
        split: prod.splits option.splits sum.splits dest: publishPost_run)
qed

lemma forMdFiles_reads: "fs_reads (events (forMdFiles w tag tagPath status mdFiles a)) = []"
proof (induction mdFiles arbitrary: a)
  case Nil
  show ?case by (simp add: events_def)
next
  case (Cons f fs)
  show ?case
    by (auto simp: Let_def Cons.IH events_after fs_reads_append convertMarkdownToHtml_def
        split: prod.splits option.splits sum.splits dest: publishPost_run)
qed

lemma forMdFiles_requests:
  "api_requests (events (forMdFiles w tag tagPath status mdFiles a)) =
     group_requests (execSync w) tag tagPath status mdFiles"
proof (induction mdFiles arbitrary: a)
  case Nil
  show ?case by (simp add: events_def)
next
  case (Cons f fs)
  show ?case
    by (auto simp: Let_def Cons.IH events_after api_requests_append convertMarkdownToHtml_def
        publishable_def
        split: prod.splits option.splits sum.splits dest: publishPost_run)
qed

lemma forMdFiles_run:
  assumes "forMdFiles w tag tagPath status mdFiles a = (r, a', ev)"
  shows "r = Inr ()"
    and "exec_commands ev = map (\<lambda>f. pandoc_command (path_join tagPath f)) mdFiles"
    and "api_requests ev = group_requests (execSync w) tag tagPath status mdFiles"
    and "fs_reads ev = []"
proof -
  show "r = Inr ()"
    using forMdFiles_resolves [of w tag tagPath status mdFiles a] assms by simp
  show "exec_commands ev = map (\<lambda>f. pandoc_command (path_join tagPath f)) mdFiles"
    using forMdFiles_exec [of w tag tagPath status mdFiles a] assms by (simp add: events_def)
  show "api_requests ev = group_requests (execSync w) tag tagPath status mdFiles"
    using forMdFiles_requests [of w tag tagPath status mdFiles a] assms by (simp add: events_def)
  show "fs_reads ev = []"
    using forMdFiles_reads [of w tag tagPath status mdFiles a] assms by (simp add: events_def)
qed



lemma forMdFiles_failed_publish:
  assumes "execSync w (pandoc_command (path_join tagPath mdFile)) = Inr out" and "trim out \<noteq> []"
    and "api_posts_add w a
           \<lparr>post_title = path_parse_name mdFile, post_html = trim out, post_tags = [Tag tag],
            post_status = status\<rparr>
           \<lparr>source = ascii ''html''\<rparr> = (Inl err, a')"
  shows "forMdFiles w tag tagPath status (mdFile # rest) a =
           after [ConsoleLog [Str (ascii ''Converting file:''), Str (path_join tagPath mdFile)],
                  ExecSync (pandoc_command (path_join tagPath mdFile)),
                  ConsoleLog [Str (ascii ''Publishing post: \"'' @ path_parse_name mdFile
                                @ ascii ''\" with status: \"'' @ status @ ascii ''\"'')],
                  Api (PostsAdd
                         \<lparr>post_title = path_parse_name mdFile, post_html = trim out,
                          post_tags = [Tag tag], post_status = status\<rparr>
                         \<lparr>source = ascii ''html''\<rparr>),
                  ConsoleError [Str (ascii ''Failed to publish post \"'' @ path_parse_name mdFile
                                  @ ascii ''\": '' @ message err)]]
             (forMdFiles w tag tagPath status rest a')"
  using assms by (simp add: convertMarkdownToHtml_def publishPost_def Let_def after_def)

lemma forTagDirs_exec:
  "exec_commands (events (forTagDirs w srcDir status dirs a)) =
     concat (map (group_commands srcDir) (scanner (fs_readdir w) srcDir dirs))"
proof (induction dirs arbitrary: a)
  case Nil
  show ?case by (simp add: events_def)
next
  case (Cons d ds)
  show ?case
  proof (cases "fs_readdir w (path_join srcDir (dirent_name d))")
    case (Inl err)
    then show ?thesis by (simp add: events_def)
  next
    case (Inr entries)
    obtain r a' ev where run:
      "forMdFiles w (dirent_name d) (path_join srcDir (dirent_name d)) status
         (filter (\<lambda>file. endsWith file (ascii ''.md'')) (map dirent_name entries)) a = (r, a', ev)"
      by (metis prod_cases3)
    have r: "r = Inr ()"
      by (rule forMdFiles_run(1) [OF run])
    have ev: "exec_commands ev =
        group_commands srcDir (dirent_name d, filter (\<lambda>file. endsWith file (ascii ''.md'')) (map dirent_name entries))"
      using forMdFiles_run(2) [OF run] by (simp add: group_commands_def)
    show ?thesis
      using Inr run r ev
      by (simp add: Let_def events_after exec_commands_append Cons.IH)
  qed
qed

lemma forTagDirs_requests:
  "api_requests (events (forTagDirs w srcDir status dirs a)) =
     concat (map (tag_requests (execSync w) srcDir status) (scanner (fs_readdir w) srcDir dirs))"
proof (induction dirs arbitrary: a)
  case Nil
  show ?case by (simp add: events_def)
next
  case (Cons d ds)
  show ?case
  proof (cases "fs_readdir w (path_join srcDir (dirent_name d))")
    case (Inl err)
    then show ?thesis by (simp add: events_def)
  next
    case (Inr entries)
    obtain r a' ev where run:
      "forMdFiles w (dirent_name d) (path_join srcDir (dirent_name d)) status
         (filter (\<lambda>file. endsWith file (ascii ''.md'')) (map dirent_name entries)) a = (r, a', ev)"
      by (metis prod_cases3)
    have r: "r = Inr ()"
      by (rule forMdFiles_run(1) [OF run])
    have ev: "api_requests ev =
        tag_requests (execSync w) srcDir status
          (dirent_name d, filter (\<lambda>file. endsWith file (ascii ''.md'')) (map dirent_name entries))"
      using forMdFiles_run(3) [OF run] by (simp add: tag_requests_def)
    show ?thesis
      using Inr run r ev
      by (simp add: Let_def events_after api_requests_append Cons.IH)
  qed
qed

lemma forTagDirs_reads:
  "fs_reads (events (forTagDirs w srcDir status dirs a)) = attempted (fs_readdir w) srcDir dirs"
proof (induction dirs arbitrary: a)
  case Nil
  show ?case by (simp add: events_def)
next
  case (Cons d ds)
  show ?case
  proof (cases "fs_readdir w (path_join srcDir (dirent_name d))")
    case (Inl err)
    then show ?thesis by (simp add: events_def)
  next
    case (Inr entries)
    obtain r a' ev where run:
      "forMdFiles w (dirent_name d) (path_join srcDir (dirent_name d)) status
         (filter (\<lambda>file. endsWith file (ascii ''.md'')) (map dirent_name entries)) a = (r, a', ev)"
      by (metis prod_cases3)
    have r: "r = Inr ()"
      by (rule forMdFiles_run(1) [OF run])
    show ?thesis
      using Inr run r forMdFiles_run(4) [OF run]
      by (simp add: Let_def events_after fs_reads_append Cons.IH)
  qed
qed

text \<open>The same for the outer loop, while the directories can be listed.\<close>

lemma forTagDirs_append:
  "readable (fs_readdir w) srcDir pre \<Longrightarrow>
   forTagDirs w srcDir status (pre @ rest) a =
     after (events (forTagDirs w srcDir status pre a))
       (forTagDirs w srcDir status rest (api_state (forTagDirs w srcDir status pre a)))"
proof (induction pre arbitrary: a)
  case Nil
  show ?case by (simp add: events_def api_state_def after_def)
next
  case (Cons d ds)
  from Cons.prems obtain entries where
    Inr: "fs_readdir w (path_join srcDir (dirent_name d)) = Inr entries" and ds: "readable (fs_readdir w) srcDir ds"
    by (auto split: sum.splits)
  obtain r a' ev where run:
    "forMdFiles w (dirent_name d) (path_join srcDir (dirent_name d)) status
       (filter (\<lambda>file. endsWith file (ascii ''.md'')) (map dirent_name entries)) a = (r, a', ev)"
    by (metis prod_cases3)
  have r: "r = Inr ()"
    by (rule forMdFiles_run(1) [OF run])
  show ?case
    using Inr run r Cons.IH [OF ds, of a']
    by (simp add: Let_def after_def events_def api_state_def split: prod.splits)
qed

lemma forTagDirs_unreadable:
  assumes "readable (fs_readdir w) srcDir before"
    and "fs_readdir w (path_join srcDir (dirent_name tagDir)) = Inl err"
  shows "forTagDirs w srcDir status (before @ tagDir # rest) a =
           (Inl err, api_state (forTagDirs w srcDir status before a),
            events (forTagDirs w srcDir status before a)
              @ [ReadDir (path_join srcDir (dirent_name tagDir))])"
  using assms(2)
  by (simp add: forTagDirs_append [OF assms(1)] after_def Let_def)

section \<open>A whole run\<close>

text \<open>
  The requests, converter commands and directory listings of \<open>main\<close>, and where each
  of them comes from.
\<close>

lemma exec_commands_logEnv: "exec_commands (logEnvironmentVariables w) = []"
  by (simp add: logEnvironmentVariables_def)

lemma api_requests_logEnv: "api_requests (logEnvironmentVariables w) = []"
  by (simp add: logEnvironmentVariables_def)

lemma fs_reads_logEnv: "fs_reads (logEnvironmentVariables w) = []"
  by (simp add: logEnvironmentVariables_def)

lemma publishPosts_resolves: "fst (publishPosts w a) = Inr ()"
  by (simp add: publishPosts_def Let_def split: sum.splits prod.splits)

lemma main_resolves: "fst (main w a) = Inr ()"
  by (simp add: main_def fst_after publishPosts_resolves)

lemma exitCode_main: "exitCode (main w a) = 0"
  by (simp add: exitCode_def main_resolves)

lemma publishPosts_requests:
  "api_requests (events (publishPosts w a)) =
     concat (map (tag_requests (execSync w) (srcDir_of w) (status_of w)) (tagGroups w))"
proof (cases "fs_readdir w (srcDir_of w)")
  case (Inl err)
  then show ?thesis by (simp add: publishPosts_def tagGroups_def events_def Let_def)
next
  case (Inr tagDirs)
  obtain r a' ev where run:
    "forTagDirs w (srcDir_of w) (status_of w) (filter isDirectory tagDirs) a = (r, a', ev)"
    by (metis prod_cases3)
  have "api_requests ev =
      concat (map (tag_requests (execSync w) (srcDir_of w) (status_of w))
        (scanner (fs_readdir w) (srcDir_of w) (filter isDirectory tagDirs)))"
    using forTagDirs_requests [of w "srcDir_of w" "status_of w" "filter isDirectory tagDirs" a] run
    by (simp add: events_def)
  then show ?thesis
    using Inr run
    by (simp add: publishPosts_def tagGroups_def events_def Let_def api_requests_append
        split: sum.splits)
qed

lemma publishPosts_exec:
  "exec_commands (events (publishPosts w a)) =
     concat (map (group_commands (srcDir_of w)) (tagGroups w))"
proof (cases "fs_readdir w (srcDir_of w)")
  case (Inl err)
  then show ?thesis by (simp add: publishPosts_def tagGroups_def events_def Let_def)
next
  case (Inr tagDirs)
  obtain r a' ev where run:
    "forTagDirs w (srcDir_of w) (status_of w) (filter isDirectory tagDirs) a = (r, a', ev)"
    by (metis prod_cases3)
  have "exec_commands ev =
      concat (map (group_commands (srcDir_of w))
        (scanner (fs_readdir w) (srcDir_of w) (filter isDirectory tagDirs)))"
    using forTagDirs_exec [of w "srcDir_of w" "status_of w" "filter isDirectory tagDirs" a] run
    by (simp add: events_def)
  then show ?thesis
    using Inr run
    by (simp add: publishPosts_def tagGroups_def events_def Let_def exec_commands_append
        split: sum.splits)
qed

lemma publishPosts_reads: "fs_reads (events (publishPosts w a)) = listed w"
proof (cases "fs_readdir w (srcDir_of w)")
  case (Inl err)
  then show ?thesis by (simp add: publishPosts_def listed_def events_def Let_def)
next
  case (Inr tagDirs)
  obtain r a' ev where run:
    "forTagDirs w (srcDir_of w) (status_of w) (filter isDirectory tagDirs) a = (r, a', ev)"
    by (metis prod_cases3)
  have "fs_reads ev = attempted (fs_readdir w) (srcDir_of w) (filter isDirectory tagDirs)"
    using forTagDirs_reads [of w "srcDir_of w" "status_of w" "filter isDirectory tagDirs" a] run
    by (simp add: events_def)
  then show ?thesis
    using Inr run
    by (simp add: publishPosts_def listed_def events_def Let_def fs_reads_append
        split: sum.splits)
qed

lemma main_requests:
  "api_requests (events (main w a)) =
     concat (map (tag_requests (execSync w) (srcDir_of w) (status_of w)) (tagGroups w))"
  by (simp add: main_def events_after api_requests_append api_requests_logEnv publishPosts_requests)

lemma main_exec:
  "exec_commands (events (main w a)) = concat (map (group_commands (srcDir_of w)) (tagGroups w))"
  by (simp add: main_def events_after exec_commands_append exec_commands_logEnv publishPosts_exec)

lemma main_reads: "fs_reads (events (main w a)) = listed w"
  by (simp add: main_def events_after fs_reads_append fs_reads_logEnv publishPosts_reads)

lemma main_exec_indep:
  "exec_commands (events (main (w\<lparr>execSync := conv, api_posts_add := api\<rparr>) a')) =
     exec_commands (events (main w a))"
  by (simp add: main_exec tagGroups_def srcDir_of_def cong: sum.case_cong)

lemma main_requests_indep:
  "api_requests (events (main (w\<lparr>api_posts_add := api\<rparr>) a')) =
     api_requests (events (main w a))"
  by (simp add: main_requests tagGroups_def srcDir_of_def status_of_def cong: sum.case_cong)

lemma main_reads_indep:
  "fs_reads (events (main (w\<lparr>process_env := env, execSync := conv, api_posts_add := api\<rparr>) a')) =
     fs_reads (events (main w a))"
  by (simp add: main_reads listed_def srcDir_of_def cong: sum.case_cong)

lemma publishPosts_root_unreadable:
  assumes "fs_readdir w (srcDir_of w) = Inl err"
  shows "publishPosts w a =
           (Inr (), a,
            [ConsoleLog [Str (ascii ''Source Directory:''), Str (srcDir_of w)],
             ReadDir (srcDir_of w),
             ConsoleError [Str (ascii ''Error processing data directory:''), Str (message err)]])"
  using assms by (simp add: publishPosts_def Let_def)

lemma publishPosts_group_unreadable:
  assumes "fs_readdir w (srcDir_of w) = Inr tagDirs"
    and "filter isDirectory tagDirs = before @ tagDir # rest"
    and "readable (fs_readdir w) (srcDir_of w) before"
    and "fs_readdir w (path_join (srcDir_of w) (dirent_name tagDir)) = Inl err"
  shows "publishPosts w a =
           (Inr (), api_state (forTagDirs w (srcDir_of w) (status_of w) before a),
            [ConsoleLog [Str (ascii ''Source Directory:''), Str (srcDir_of w)],
             ReadDir (srcDir_of w),
             ConsoleLog [Str (ascii ''Tag Directories:''),
                         Array (map dirent_name (before @ tagDir # rest))]]
            @ events (forTagDirs w (srcDir_of w) (status_of w) before a)
            @ [ReadDir (path_join (srcDir_of w) (dirent_name tagDir)),
               ConsoleError [Str (ascii ''Error processing data directory:''), Str (message err)]])"
  using assms(1,2)
  by (simp add: publishPosts_def Let_def forTagDirs_unreadable [OF assms(3,4)])

lemma scanner_mem:
  "g \<in> set (scanner (fs_readdir w) srcDir dirs) \<Longrightarrow>
     \<exists>tagDir entries. tagDir \<in> set dirs
       \<and> fs_readdir w (path_join srcDir (dirent_name tagDir)) = Inr entries
       \<and> g = (dirent_name tagDir,
              filter (\<lambda>file. endsWith file (ascii ''.md'')) (map dirent_name entries))"
proof (induction dirs)
  case Nil
  then show ?case by simp
next
  case (Cons d ds)
  show ?case
  proof (cases "fs_readdir w (path_join srcDir (dirent_name d))")
    case (Inl err)
    with Cons.prems show ?thesis by simp
  next
    case (Inr entries)
    with Cons.prems consider
      "g = (dirent_name d, filter (\<lambda>file. endsWith file (ascii ''.md'')) (map dirent_name entries))"
      | "g \<in> set (scanner (fs_readdir w) srcDir ds)"
      by auto
    then show ?thesis
    proof cases
      case 1
      with Inr show ?thesis by (intro exI [of _ d] exI [of _ entries]) simp
    next
      case 2
      from Cons.IH [OF 2] obtain tagDir es where
        "tagDir \<in> set ds" "fs_readdir w (path_join srcDir (dirent_name tagDir)) = Inr es"
        "g = (dirent_name tagDir, filter (\<lambda>file. endsWith file (ascii ''.md'')) (map dirent_name es))"
        by blast
      then show ?thesis by (intro exI [of _ tagDir] exI [of _ es]) simp
    qed
  qed
qed

lemma scanner_readable:
  "readable (fs_readdir w) srcDir dirs \<Longrightarrow> tagDir \<in> set dirs \<Longrightarrow>
   fs_readdir w (path_join srcDir (dirent_name tagDir)) = Inr entries \<Longrightarrow>
     (dirent_name tagDir, filter (\<lambda>file. endsWith file (ascii ''.md'')) (map dirent_name entries))
       \<in> set (scanner (fs_readdir w) srcDir dirs)"
  by (induction dirs) (auto split: sum.splits)

lemma attempted_mem:
  "p \<in> set (attempted (fs_readdir w) srcDir dirs) \<Longrightarrow>
     \<exists>tagDir. tagDir \<in> set dirs \<and> p = path_join srcDir (dirent_name tagDir)"
  by (induction dirs) (auto split: sum.splits)

lemma group_requests_mem:
  "req \<in> set (group_requests (execSync w) tag tagPath status mdFiles) \<longleftrightarrow>
     (\<exists>f out. f \<in> set mdFiles
        \<and> execSync w (pandoc_command (path_join tagPath f)) = Inr out
        \<and> trim out \<noteq> []
        \<and> req = create_post (path_parse_name f) (trim out) tag status)"
proof (induction mdFiles)
  case Nil
  show ?case by simp
next
  case (Cons f fs)
  show ?case
    by (cases "execSync w (pandoc_command (path_join tagPath f))")
       (auto simp: Cons.IH publishable_def)
qed

lemma tagGroups_mem:
  assumes "g \<in> set (tagGroups w)"
  shows "\<exists>tagDirs. fs_readdir w (srcDir_of w) = Inr tagDirs
           \<and> g \<in> set (scanner (fs_readdir w) (srcDir_of w) (filter isDirectory tagDirs))"
proof (cases "fs_readdir w (srcDir_of w)")
  case (Inl err)
  with assms show ?thesis by (simp add: tagGroups_def)
next
  case (Inr tagDirs)
  with assms show ?thesis by (simp add: tagGroups_def)
qed

text \<open>Every request comes from a selected entry of a listed tag directory.\<close>

lemma request_origin:
  assumes "req \<in> set (api_requests (events (main w a)))"
  shows "\<exists>tagDirs tagDir entries entry out.
           fs_readdir w (srcDir_of w) = Inr tagDirs
         \<and> tagDir \<in> set tagDirs \<and> isDirectory tagDir
         \<and> fs_readdir w (path_join (srcDir_of w) (dirent_name tagDir)) = Inr entries
         \<and> entry \<in> set entries \<and> endsWith (dirent_name entry) (ascii ''.md'')
         \<and> execSync w (pandoc_command
               (path_join (path_join (srcDir_of w) (dirent_name tagDir)) (dirent_name entry))) = Inr out
         \<and> trim out \<noteq> []
         \<and> req = create_post (path_parse_name (dirent_name entry)) (trim out)
                   (dirent_name tagDir) (status_of w)"
proof -
  from assms obtain g where g: "g \<in> set (tagGroups w)"
    and req: "req \<in> set (tag_requests (execSync w) (srcDir_of w) (status_of w) g)"
    by (auto simp: main_requests)
  from tagGroups_mem [OF g] obtain tagDirs where root: "fs_readdir w (srcDir_of w) = Inr tagDirs"
    and g': "g \<in> set (scanner (fs_readdir w) (srcDir_of w) (filter isDirectory tagDirs))"
    by blast
  from scanner_mem [OF g'] obtain tagDir entries where
    tagDir: "tagDir \<in> set tagDirs" "isDirectory tagDir"
    and entries: "fs_readdir w (path_join (srcDir_of w) (dirent_name tagDir)) = Inr entries"
    and geq: "g = (dirent_name tagDir,
                  filter (\<lambda>file. endsWith file (ascii ''.md'')) (map dirent_name entries))"
    by auto
  from req geq obtain f out where
    f: "f \<in> set (filter (\<lambda>file. endsWith file (ascii ''.md'')) (map dirent_name entries))"
    and out: "execSync w (pandoc_command (path_join (path_join (srcDir_of w) (dirent_name tagDir)) f)) = Inr out"
      "trim out \<noteq> []"
    and r: "req = create_post (path_parse_name f) (trim out) (dirent_name tagDir) (status_of w)"
    by (auto simp: tag_requests_def group_requests_mem)
  from f obtain entry where entry: "entry \<in> set entries" "f = dirent_name entry"
    "endsWith (dirent_name entry) (ascii ''.md'')"
    by auto
  from root tagDir entries entry out r show ?thesis
    apply (intro exI [of _ tagDirs])
    apply (rule exI [of _ tagDir])
    apply (rule exI [of _ entries])
    apply (rule exI [of _ entry])
    apply (rule exI [of _ out])
    apply simp
    done
qed



lemma command_origin:
  assumes "cmd \<in> set (exec_commands (events (main w a)))"
  shows "\<exists>tagDirs tagDir entries entry.
           fs_readdir w (srcDir_of w) = Inr tagDirs
         \<and> tagDir \<in> set tagDirs \<and> isDirectory tagDir
         \<and> fs_readdir w (path_join (srcDir_of w) (dirent_name tagDir)) = Inr entries
         \<and> entry \<in> set entries \<and> endsWith (dirent_name entry) (ascii ''.md'')
         \<and> cmd = pandoc_command
               (path_join (path_join (srcDir_of w) (dirent_name tagDir)) (dirent_name entry))"
proof -
  from assms obtain g where g: "g \<in> set (tagGroups w)"
    and cmd: "cmd \<in> set (group_commands (srcDir_of w) g)"
    by (auto simp: main_exec)
  from tagGroups_mem [OF g] obtain tagDirs where root: "fs_readdir w (srcDir_of w) = Inr tagDirs"
    and g': "g \<in> set (scanner (fs_readdir w) (srcDir_of w) (filter isDirectory tagDirs))"
    by blast
  from scanner_mem [OF g'] obtain tagDir entries where
    tagDir: "tagDir \<in> set tagDirs" "isDirectory tagDir"
    and entries: "fs_readdir w (path_join (srcDir_of w) (dirent_name tagDir)) = Inr entries"
    and geq: "g = (dirent_name tagDir,
                  filter (\<lambda>file. endsWith file (ascii ''.md'')) (map dirent_name entries))"
    by auto
  from cmd geq obtain entry where entry: "entry \<in> set entries"
    "endsWith (dirent_name entry) (ascii ''.md'')"
    "cmd = pandoc_command
       (path_join (path_join (srcDir_of w) (dirent_name tagDir)) (dirent_name entry))"
    by (auto simp: group_commands_def)
  from root tagDir entries entry show ?thesis
    apply (intro exI [of _ tagDirs])
    apply (rule exI [of _ tagDir])
    apply (rule exI [of _ entries])
    apply (rule exI [of _ entry])
    apply simp
    done
qed

lemma command_issued:
  assumes "fs_readdir w (srcDir_of w) = Inr tagDirs"
    and "readable (fs_readdir w) (srcDir_of w) (filter isDirectory tagDirs)"
    and "tagDir \<in> set tagDirs" and "isDirectory tagDir"
    and "fs_readdir w (path_join (srcDir_of w) (dirent_name tagDir)) = Inr entries"
    and "entry \<in> set entries" and "endsWith (dirent_name entry) (ascii ''.md'')"
  shows "pandoc_command (path_join (path_join (srcDir_of w) (dirent_name tagDir)) (dirent_name entry))
           \<in> set (exec_commands (events (main w a)))"
proof -
  let ?files = "filter (\<lambda>file. endsWith file (ascii ''.md'')) (map dirent_name entries)"
  have "tagDir \<in> set (filter isDirectory tagDirs)" using assms(3,4) by simp
  from scanner_readable [OF assms(2) this assms(5)]
  have g: "(dirent_name tagDir, ?files) \<in> set (tagGroups w)"
    by (simp add: tagGroups_def assms(1))
  have "dirent_name entry \<in> set ?files" using assms(6,7) by auto
  then have "pandoc_command (path_join (path_join (srcDir_of w) (dirent_name tagDir)) (dirent_name entry))
      \<in> set (group_commands (srcDir_of w) (dirent_name tagDir, ?files))"
    by (auto simp: group_commands_def)
  with g show ?thesis
    unfolding main_exec by (rule concat_map_mem)
qed

lemma read_origin:
  assumes "p \<in> set (fs_reads (events (main w a)))"
  shows "p = srcDir_of w
       \<or> (\<exists>tagDirs tagDir. fs_readdir w (srcDir_of w) = Inr tagDirs
            \<and> tagDir \<in> set tagDirs \<and> isDirectory tagDir
            \<and> p = path_join (srcDir_of w) (dirent_name tagDir))"
proof (cases "p = srcDir_of w")
  case True
  then show ?thesis by simp
next
  case False
  show ?thesis
  proof (cases "fs_readdir w (srcDir_of w)")
    case (Inl err)
    with assms False show ?thesis by (simp add: main_reads listed_def)
  next
    case (Inr tagDirs)
    with assms False have "p \<in> set (attempted (fs_readdir w) (srcDir_of w) (filter isDirectory tagDirs))"
      by (simp add: main_reads listed_def)
    from attempted_mem [OF this] Inr show ?thesis by auto
  qed
qed






section \<open>The example worlds, evaluated\<close>

lemmas world_eval =
  demo_world_def directory_def regular_def ascii_def path_resolve_def path_join_def
  srcDir_of_def status_of_def endsWith_def pandoc_command_def trim_def isWhiteSpace_def
  path_parse_name_def path_extname_def tagGroups_def publishable_def create_post_def
  tag_requests_def group_commands_def listed_def

lemma demo_srcDir: "srcDir_of demo_world = ascii ''/app/src''"
  by (simp add: world_eval)

lemma demo_root:
  "fs_readdir demo_world (ascii ''/app/src'') =
     Inr [directory ''tagA'', regular ''README.txt'', directory ''tagB'']"
  by (simp add: demo_world_def)

lemma demo_readable:
  "readable (fs_readdir demo_world) (srcDir_of demo_world)
     (filter isDirectory [directory ''tagA'', regular ''README.txt'', directory ''tagB''])"
  by (simp add: world_eval)

lemma demo_requests:
  "api_requests (events (main demo_world 0)) =
     [create_post (ascii ''post1'') (ascii ''<p>one</p>'') (ascii ''tagA'') (ascii ''published''),
      create_post (ascii ''post2'') (ascii ''<p>two</p>'') (ascii ''tagB'') (ascii ''published'')]"
  by (simp add: main_requests world_eval)

lemma demo_commands:
  "exec_commands (events (main demo_world 0)) =
     [pandoc_command (ascii ''/app/src/tagA/post1.md''),
      pandoc_command (ascii ''/app/src/tagA/broken.md''),
      pandoc_command (ascii ''/app/src/tagA/blank.md''),
      pandoc_command (ascii ''/app/src/tagB/post2.md'')]"
  by (simp add: main_exec world_eval)

lemma demo_reads:
  "fs_reads (events (main demo_world 0)) =
     [ascii ''/app/src'', ascii ''/app/src/tagA'', ascii ''/app/src/tagB'']"
  by (simp add: main_reads world_eval)


lemmas client_eval =
  strict_client_def client_config_of_def blog_url_def admin_key_def blog_world_def
  configured_env_def configured_world_def

lemma blog_client: "strict_client (client_config_of blog_world) = Inr ()"
  by (simp add: client_eval demo_world_def ascii_def)

lemma blog_reads:
  "fs_reads (events (main blog_world 0)) =
     [ascii ''/app/src'', ascii ''/app/src/tagA'', ascii ''/app/src/tagB'']"
  by (simp add: main_reads blog_world_def world_eval)

section \<open>Properties of the publisher\<close>

text \<open>
  Claim C1, amended. Every create-post request of a run is
  \<^verbatim>\<open>posts.add({ title, html, tags: [{ name: tag }], status }, { source: 'html' })\<close> for an
  entry whose name ends with \<^verbatim>\<open>.md\<close>, directly inside a first-level subdirectory of the
  content root: \<open>tag\<close> is that subdirectory's name, \<open>html\<close> the trimmed converter output,
  \<open>status\<close> the run's status, and \<open>title\<close> is \<^verbatim>\<open>path.parse(file).name\<close>: the entry's name
  with \<^verbatim>\<open>.md\<close> stripped, except for an entry named exactly \<^verbatim>\<open>.md\<close>, whose title is
  \<^verbatim>\<open>.md\<close>.
\<close>

theorem C1_create_post_payload:
  assumes "Api req \<in> set (events (main w a))"
  shows "\<exists>tagDirs tagDir entries entry out.
           fs_readdir w (srcDir_of w) = Inr tagDirs
         \<and> tagDir \<in> set tagDirs \<and> isDirectory tagDir
         \<and> fs_readdir w (path_join (srcDir_of w) (dirent_name tagDir)) = Inr entries
         \<and> entry \<in> set entries \<and> endsWith (dirent_name entry) (ascii ''.md'')
         \<and> execSync w (pandoc_command
               (path_join (path_join (srcDir_of w) (dirent_name tagDir)) (dirent_name entry))) = Inr out
         \<and> req = PostsAdd
               \<lparr>post_title = (if dirent_name entry = ascii ''.md'' then ascii ''.md''
                               else without_md_extension (dirent_name entry)),
                post_html = trim out,
                post_tags = [Tag (dirent_name tagDir)],
                post_status = status_of w\<rparr>
               \<lparr>source = ascii ''html''\<rparr>"
proof -
  from assms have "req \<in> set (api_requests (events (main w a)))"
    by (simp add: Api_mem)
  from request_origin [OF this] obtain tagDirs tagDir entries entry out where
    o: "fs_readdir w (srcDir_of w) = Inr tagDirs" "tagDir \<in> set tagDirs" "isDirectory tagDir"
      "fs_readdir w (path_join (srcDir_of w) (dirent_name tagDir)) = Inr entries"
      "entry \<in> set entries" "endsWith (dirent_name entry) (ascii ''.md'')"
      "execSync w (pandoc_command
         (path_join (path_join (srcDir_of w) (dirent_name tagDir)) (dirent_name entry))) = Inr out"
    and req: "req = create_post (path_parse_name (dirent_name entry)) (trim out)
                (dirent_name tagDir) (status_of w)"
    by blast
  have "req = PostsAdd
               \<lparr>post_title = (if dirent_name entry = ascii ''.md'' then ascii ''.md''
                               else without_md_extension (dirent_name entry)),
                post_html = trim out,
                post_tags = [Tag (dirent_name tagDir)],
                post_status = status_of w\<rparr>
               \<lparr>source = ascii ''html''\<rparr>"
    unfolding req create_post_def path_parse_name_markdown [OF o(6)] ..
  with o show ?thesis
    apply (intro exI [of _ tagDirs])
    apply (rule exI [of _ tagDir])
    apply (rule exI [of _ entries])
    apply (rule exI [of _ entry])
    apply (rule exI [of _ out])
    apply simp
    done
qed

text \<open>Claim C1, amended, on \<open>demo_world\<close>: the request for \<^verbatim>\<open>tagB/post2.md\<close>.\<close>

theorem C1_witness:
  "Api (PostsAdd \<lparr>post_title = ascii ''post2'', post_html = ascii ''<p>two</p>'',
                  post_tags = [Tag (ascii ''tagB'')], post_status = ascii ''published''\<rparr>
                 \<lparr>source = ascii ''html''\<rparr>)
     \<in> set (events (main demo_world 0))
   \<and> (\<exists>tagDirs tagDir entries entry out.
           fs_readdir demo_world (srcDir_of demo_world) = Inr tagDirs
         \<and> tagDir \<in> set tagDirs \<and> isDirectory tagDir
         \<and> fs_readdir demo_world (path_join (srcDir_of demo_world) (dirent_name tagDir)) = Inr entries
         \<and> entry \<in> set entries \<and> endsWith (dirent_name entry) (ascii ''.md'')
         \<and> execSync demo_world (pandoc_command
               (path_join (path_join (srcDir_of demo_world) (dirent_name tagDir)) (dirent_name entry)))
             = Inr out
         \<and> PostsAdd \<lparr>post_title = ascii ''post2'', post_html = ascii ''<p>two</p>'',
                     post_tags = [Tag (ascii ''tagB'')], post_status = ascii ''published''\<rparr>
                    \<lparr>source = ascii ''html''\<rparr>
             = PostsAdd
               \<lparr>post_title = (if dirent_name entry = ascii ''.md'' then ascii ''.md''
                               else without_md_extension (dirent_name entry)),
                post_html = trim out,
                post_tags = [Tag (dirent_name tagDir)],
                post_status = status_of demo_world\<rparr>
               \<lparr>source = ascii ''html''\<rparr>)"
proof -
  have h: "Api (PostsAdd \<lparr>post_title = ascii ''post2'', post_html = ascii ''<p>two</p>'',
                  post_tags = [Tag (ascii ''tagB'')], post_status = ascii ''published''\<rparr>
                 \<lparr>source = ascii ''html''\<rparr>)
     \<in> set (events (main demo_world 0))"
    by (simp add: Api_mem demo_requests create_post_def)
  from h C1_create_post_payload [OF h] show ?thesis by (rule conjI)
qed

text \<open>
  Claim C1 as stated fails for a file named \<^verbatim>\<open>.md\<close>: it ends with \<^verbatim>\<open>.md\<close>, so it is
  converted and published, and stripping \<^verbatim>\<open>.md\<close> from its name leaves the empty string,
  but the post's title is \<^verbatim>\<open>.md\<close>.
\<close>

theorem C1_counterexample:
  "api_requests (events (main hidden_file_world 0)) =
     [PostsAdd \<lparr>post_title = ascii ''.md'', post_html = ascii ''<p>hi</p>'',
                post_tags = [Tag (ascii ''notes'')], post_status = ascii ''draft''\<rparr>
               \<lparr>source = ascii ''html''\<rparr>]
   \<and> without_md_extension (ascii ''.md'') = []
   \<and> ascii ''.md'' \<noteq> without_md_extension (ascii ''.md'')"
  by (simp add: main_requests world_eval hidden_file_world_def without_md_extension_def)



text \<open>
  Claim C3. When \<^verbatim>\<open>api.posts.add\<close> rejects for a file, the loop has sent that one request,
  logs the failure and goes on with the next file from the API's new state: no second
  request for the file. The process exits with code 0. The converter commands and the
  requests of a run are the same whatever the API answers, so no failed post aborts the
  batch and none is retried.
\<close>

theorem C3_failed_publish_is_logged_and_skipped:
  assumes "execSync w (pandoc_command (path_join tagPath mdFile)) = Inr out"
    and "trim out \<noteq> []"
    and "api_posts_add w a
           \<lparr>post_title = path_parse_name mdFile, post_html = trim out, post_tags = [Tag tag],
            post_status = status\<rparr>
           \<lparr>source = ascii ''html''\<rparr> = (Inl err, a')"
  shows "forMdFiles w tag tagPath status (mdFile # rest) a =
           after [ConsoleLog [Str (ascii ''Converting file:''), Str (path_join tagPath mdFile)],
                  ExecSync (pandoc_command (path_join tagPath mdFile)),
                  ConsoleLog [Str (ascii ''Publishing post: \"'' @ path_parse_name mdFile
                                @ ascii ''\" with status: \"'' @ status @ ascii ''\"'')],
                  Api (PostsAdd
                         \<lparr>post_title = path_parse_name mdFile, post_html = trim out,
                          post_tags = [Tag tag], post_status = status\<rparr>
                         \<lparr>source = ascii ''html''\<rparr>),
                  ConsoleError [Str (ascii ''Failed to publish post \"'' @ path_parse_name mdFile
                                  @ ascii ''\": '' @ message err)]]
             (forMdFiles w tag tagPath status rest a')
       \<and> exitCode (main w a0) = 0
       \<and> exec_commands (events (main (w\<lparr>api_posts_add := api\<rparr>) a1)) =
           exec_commands (events (main w a0))
       \<and> api_requests (events (main (w\<lparr>api_posts_add := api\<rparr>) a1)) =
           api_requests (events (main w a0))"
proof (intro conjI)
  show "forMdFiles w tag tagPath status (mdFile # rest) a =
           after [ConsoleLog [Str (ascii ''Converting file:''), Str (path_join tagPath mdFile)],
                  ExecSync (pandoc_command (path_join tagPath mdFile)),
                  ConsoleLog [Str (ascii ''Publishing post: \"'' @ path_parse_name mdFile
                                @ ascii ''\" with status: \"'' @ status @ ascii ''\"'')],
                  Api (PostsAdd
                         \<lparr>post_title = path_parse_name mdFile, post_html = trim out,
                          post_tags = [Tag tag], post_status = status\<rparr>
                         \<lparr>source = ascii ''html''\<rparr>),
                  ConsoleError [Str (ascii ''Failed to publish post \"'' @ path_parse_name mdFile
                                  @ ascii ''\": '' @ message err)]]
             (forMdFiles w tag tagPath status rest a')"
    by (rule forMdFiles_failed_publish [OF assms])
  show "exitCode (main w a0) = 0"
    by (rule exitCode_main)
  show "exec_commands (events (main (w\<lparr>api_posts_add := api\<rparr>) a1)) =
           exec_commands (events (main w a0))"
    using main_exec_indep [where w = w and conv = "execSync w" and api = api and a' = a1 and a = a0]
    by simp
  show "api_requests (events (main (w\<lparr>api_posts_add := api\<rparr>) a1)) =
           api_requests (events (main w a0))"
    by (rule main_requests_indep)
qed

text \<open>
  Claim C3 on \<open>demo_world\<close>: the API rejects the post for \<^verbatim>\<open>post1.md\<close>; one request,
  one error line, and \<^verbatim>\<open>broken.md\<close> is processed next.
\<close>

theorem C3_witness:
  "execSync demo_world (pandoc_command (path_join (ascii ''/app/src/tagA'') (ascii ''post1.md'')))
     = Inr (ascii ''<p>one</p>'' @ [0x0A])
   \<and> trim (ascii ''<p>one</p>'' @ [0x0A]) \<noteq> []
   \<and> api_posts_add demo_world 0
         \<lparr>post_title = path_parse_name (ascii ''post1.md''),
          post_html = trim (ascii ''<p>one</p>'' @ [0x0A]),
          post_tags = [Tag (ascii ''tagA'')], post_status = ascii ''published''\<rparr>
         \<lparr>source = ascii ''html''\<rparr> = (Inl (Error (ascii ''rejected'')), 1)
   \<and> forMdFiles demo_world (ascii ''tagA'') (ascii ''/app/src/tagA'') (ascii ''published'')
        [ascii ''post1.md'', ascii ''broken.md''] 0 =
       (Inr (), 1,
        [ConsoleLog [Str (ascii ''Converting file:''), Str (ascii ''/app/src/tagA/post1.md'')],
         ExecSync (pandoc_command (ascii ''/app/src/tagA/post1.md'')),
         ConsoleLog [Str (ascii ''Publishing post: \"post1\" with status: \"published\"'')],
         Api (create_post (ascii ''post1'') (ascii ''<p>one</p>'') (ascii ''tagA'') (ascii ''published'')),
         ConsoleError [Str (ascii ''Failed to publish post \"post1\": rejected'')],
         ConsoleLog [Str (ascii ''Converting file:''), Str (ascii ''/app/src/tagA/broken.md'')],
         ExecSync (pandoc_command (ascii ''/app/src/tagA/broken.md'')),
         ConsoleError [Str (ascii ''Error converting file to HTML: pandoc failed'')]])
   \<and> exitCode (main demo_world 0) = 0
   \<and> api_requests (events (main (demo_world\<lparr>api_posts_add :=
            (\<lambda>n p opts. (Inl (Error (ascii ''offline'')), n))\<rparr>) 7))
       = api_requests (events (main demo_world 0))"
proof -
  have h1: "execSync demo_world
      (pandoc_command (path_join (ascii ''/app/src/tagA'') (ascii ''post1.md'')))
     = Inr (ascii ''<p>one</p>'' @ [0x0A])"
    by (simp add: world_eval)
  have h2: "trim (ascii ''<p>one</p>'' @ [0x0A]) \<noteq> []"
    by (simp add: world_eval)
  have h3: "api_posts_add demo_world 0
         \<lparr>post_title = path_parse_name (ascii ''post1.md''),
          post_html = trim (ascii ''<p>one</p>'' @ [0x0A]),
          post_tags = [Tag (ascii ''tagA'')], post_status = ascii ''published''\<rparr>
         \<lparr>source = ascii ''html''\<rparr> = (Inl (Error (ascii ''rejected'')), 1)"
    by (simp add: demo_world_def)
  show ?thesis
    using h1 h2 h3 C3_failed_publish_is_logged_and_skipped [OF h1 h2 h3,
        where rest = "[ascii ''broken.md'']" and ?a0.0 = 0 and ?a1.0 = 7
          and api = "\<lambda>n p opts. (Inl (Error (ascii ''offline'')), n)"]
    by (simp add: world_eval convertMarkdownToHtml_def Let_def after_def)
qed

text \<open>
  Claim C4. When the content root cannot be listed, the run is the listing attempt and
  the logged error: no conversion, no request. When a tag directory cannot be listed (the
  first such one, the directories before it having been processed), the run ends with the
  failed listing and the logged error: the directories after it are neither listed nor
  processed.
\<close>

theorem C4_unreadable_directory_aborts_run:
  "(fs_readdir w (srcDir_of w) = Inl err \<longrightarrow>
      publishPosts w a =
        (Inr (), a,
         [ConsoleLog [Str (ascii ''Source Directory:''), Str (srcDir_of w)],
          ReadDir (srcDir_of w),
          ConsoleError [Str (ascii ''Error processing data directory:''), Str (message err)]]))
   \<and> (fs_readdir w (srcDir_of w) = Inr tagDirs
        \<and> filter isDirectory tagDirs = before @ tagDir # rest
        \<and> readable (fs_readdir w) (srcDir_of w) before
        \<and> fs_readdir w (path_join (srcDir_of w) (dirent_name tagDir)) = Inl err \<longrightarrow>
      publishPosts w a =
        (Inr (), api_state (forTagDirs w (srcDir_of w) (status_of w) before a),
         [ConsoleLog [Str (ascii ''Source Directory:''), Str (srcDir_of w)],
          ReadDir (srcDir_of w),
          ConsoleLog [Str (ascii ''Tag Directories:''),
                      Array (map dirent_name (before @ tagDir # rest))]]
         @ events (forTagDirs w (srcDir_of w) (status_of w) before a)
         @ [ReadDir (path_join (srcDir_of w) (dirent_name tagDir)),
            ConsoleError [Str (ascii ''Error processing data directory:''), Str (message err)]]))"
  using publishPosts_root_unreadable [of w err a]
    publishPosts_group_unreadable [of w tagDirs before tagDir rest err a]
  by blast

text \<open>
  Claim C4 on \<open>no_src_world\<close> (the root fails) and on \<open>locked_world\<close> (\<^verbatim>\<open>tagA\<close> fails, and
  \<^verbatim>\<open>tagB\<close> is never listed).
\<close>

theorem C4_witness:
  "fs_readdir no_src_world (srcDir_of no_src_world) = Inl (Error (ascii ''ENOENT''))
   \<and> events (publishPosts no_src_world 0) =
       [ConsoleLog [Str (ascii ''Source Directory:''), Str (ascii ''/app/src'')],
        ReadDir (ascii ''/app/src''),
        ConsoleError [Str (ascii ''Error processing data directory:''), Str (ascii ''ENOENT'')]]
   \<and> fs_readdir locked_world (srcDir_of locked_world) =
       Inr [directory ''tagA'', regular ''README.txt'', directory ''tagB'']
   \<and> filter isDirectory [directory ''tagA'', regular ''README.txt'', directory ''tagB''] =
       [] @ directory ''tagA'' # [directory ''tagB'']
   \<and> readable (fs_readdir locked_world) (srcDir_of locked_world) []
   \<and> fs_readdir locked_world (path_join (srcDir_of locked_world) (dirent_name (directory ''tagA'')))
       = Inl (Error (ascii ''EACCES''))
   \<and> events (publishPosts locked_world 0) =
       [ConsoleLog [Str (ascii ''Source Directory:''), Str (ascii ''/app/src'')],
        ReadDir (ascii ''/app/src''),
        ConsoleLog [Str (ascii ''Tag Directories:''), Array [ascii ''tagA'', ascii ''tagB'']],
        ReadDir (ascii ''/app/src/tagA''),
        ConsoleError [Str (ascii ''Error processing data directory:''), Str (ascii ''EACCES'')]]"
proof -
  have r: "fs_readdir no_src_world (srcDir_of no_src_world) = Inl (Error (ascii ''ENOENT''))"
    by (simp add: no_src_world_def demo_world_def)
  have l1: "fs_readdir locked_world (srcDir_of locked_world) =
       Inr [directory ''tagA'', regular ''README.txt'', directory ''tagB'']"
    by (simp add: locked_world_def world_eval)
  have l2: "filter isDirectory [directory ''tagA'', regular ''README.txt'', directory ''tagB''] =
       [] @ directory ''tagA'' # [directory ''tagB'']"
    by (simp add: directory_def regular_def)
  have l3: "readable (fs_readdir locked_world) (srcDir_of locked_world) []"
    by simp
  have l4: "fs_readdir locked_world
       (path_join (srcDir_of locked_world) (dirent_name (directory ''tagA'')))
       = Inl (Error (ascii ''EACCES''))"
    by (simp add: locked_world_def world_eval)
  from C4_unreadable_directory_aborts_run
         [where w = no_src_world and err = "Error (ascii ''ENOENT'')" and a = 0] r
  have c1: "events (publishPosts no_src_world 0) =
       [ConsoleLog [Str (ascii ''Source Directory:''), Str (ascii ''/app/src'')],
        ReadDir (ascii ''/app/src''),
        ConsoleError [Str (ascii ''Error processing data directory:''), Str (ascii ''ENOENT'')]]"
    by (simp add: events_def no_src_world_def world_eval)
  from C4_unreadable_directory_aborts_run
         [where w = locked_world and err = "Error (ascii ''EACCES'')" and a = 0
            and tagDirs = "[directory ''tagA'', regular ''README.txt'', directory ''tagB'']"
            and before = "[]" and tagDir = "directory ''tagA''" and rest = "[directory ''tagB'']"]
       l1 l2 l3 l4
  have c2: "events (publishPosts locked_world 0) =
       [ConsoleLog [Str (ascii ''Source Directory:''), Str (ascii ''/app/src'')],
        ReadDir (ascii ''/app/src''),
        ConsoleLog [Str (ascii ''Tag Directories:''), Array [ascii ''tagA'', ascii ''tagB'']],
        ReadDir (ascii ''/app/src/tagA''),
        ConsoleError [Str (ascii ''Error processing data directory:''), Str (ascii ''EACCES'')]]"
    by (simp add: events_def locked_world_def world_eval)
  from r c1 l1 l2 l3 l4 c2 show ?thesis by (intro conjI)
qed

text \<open>
  Claim C5, amended. Every post of a run carries the same status: the value of
  \<^verbatim>\<open>POST_STATUS\<close> when it is set to a non-empty string, and \<^verbatim>\<open>draft\<close> when it is unset or
  set to the empty string.
\<close>

theorem C5_one_status_per_run:
  assumes "Api (PostsAdd payload opts) \<in> set (events (main w a))"
  shows "post_status payload =
           (case process_env w (ascii ''POST_STATUS'') of
              None \<Rightarrow> ascii ''draft''
            | Some v \<Rightarrow> if v = [] then ascii ''draft'' else v)"
proof -
  from assms have "PostsAdd payload opts \<in> set (api_requests (events (main w a)))"
    by (simp add: Api_mem)
  from request_origin [OF this] obtain title html tag where
    "PostsAdd payload opts = create_post title html tag (status_of w)"
    by blast
  then have "post_status payload = status_of w"
    by (simp add: create_post_def)
  then show ?thesis by (simp add: status_of_def)
qed

text \<open>Claim C5, amended, on \<open>demo_world\<close>, where \<^verbatim>\<open>POST_STATUS\<close> is \<^verbatim>\<open>published\<close>.\<close>

theorem C5_witness:
  "Api (PostsAdd \<lparr>post_title = ascii ''post2'', post_html = ascii ''<p>two</p>'',
                  post_tags = [Tag (ascii ''tagB'')], post_status = ascii ''published''\<rparr>
                 \<lparr>source = ascii ''html''\<rparr>)
     \<in> set (events (main demo_world 0))
   \<and> post_status \<lparr>post_title = ascii ''post2'', post_html = ascii ''<p>two</p>'',
                  post_tags = [Tag (ascii ''tagB'')], post_status = ascii ''published''\<rparr> =
       (case process_env demo_world (ascii ''POST_STATUS'') of
          None \<Rightarrow> ascii ''draft''
        | Some v \<Rightarrow> if v = [] then ascii ''draft'' else v)"
proof -
  have h: "Api (PostsAdd \<lparr>post_title = ascii ''post2'', post_html = ascii ''<p>two</p>'',
                  post_tags = [Tag (ascii ''tagB'')], post_status = ascii ''published''\<rparr>
                 \<lparr>source = ascii ''html''\<rparr>)
     \<in> set (events (main demo_world 0))"
    by (simp add: Api_mem demo_requests create_post_def)
  from h C5_one_status_per_run [OF h] show ?thesis by (rule conjI)
qed

text \<open>
  Claim C5 as stated fails when \<^verbatim>\<open>POST_STATUS\<close> is set to the empty string: the post's
  status is \<^verbatim>\<open>draft\<close>, not the value of the variable.
\<close>

theorem C5_counterexample:
  "process_env empty_status_world (ascii ''POST_STATUS'') = Some []
   \<and> api_requests (events (main empty_status_world 0)) =
       [PostsAdd \<lparr>post_title = ascii ''post1'', post_html = ascii ''<p>one</p>'',
                  post_tags = [Tag (ascii ''tagA'')], post_status = ascii ''draft''\<rparr>
                 \<lparr>source = ascii ''html''\<rparr>]
   \<and> ascii ''draft'' \<noteq> []"
  by (simp add: main_requests world_eval empty_status_world_def)

text \<open>
  Claim C6. Every file handed to the converter is an entry directly inside a first-level
  subdirectory of the content root whose name ends with \<^verbatim>\<open>.md\<close>; when every tag
  directory can be listed, every such entry is handed to the converter; the only
  directories a run lists are the content root and its first-level subdirectories; and
  the match is case-sensitive (\<^verbatim>\<open>POST.MD\<close> does not end with \<^verbatim>\<open>.md\<close>).
\<close>

theorem C6_scanner_selects_direct_md_entries:
  "(ExecSync cmd \<in> set (events (main w a)) \<longrightarrow>
      (\<exists>tagDirs tagDir entries entry.
          fs_readdir w (srcDir_of w) = Inr tagDirs
        \<and> tagDir \<in> set tagDirs \<and> isDirectory tagDir
        \<and> fs_readdir w (path_join (srcDir_of w) (dirent_name tagDir)) = Inr entries
        \<and> entry \<in> set entries \<and> endsWith (dirent_name entry) (ascii ''.md'')
        \<and> cmd = pandoc_command
              (path_join (path_join (srcDir_of w) (dirent_name tagDir)) (dirent_name entry))))
   \<and> (fs_readdir w (srcDir_of w) = Inr tagDirs
        \<and> readable (fs_readdir w) (srcDir_of w) (filter isDirectory tagDirs)
        \<and> tagDir \<in> set tagDirs \<and> isDirectory tagDir
        \<and> fs_readdir w (path_join (srcDir_of w) (dirent_name tagDir)) = Inr entries
        \<and> entry \<in> set entries \<and> endsWith (dirent_name entry) (ascii ''.md'') \<longrightarrow>
      ExecSync (pandoc_command
          (path_join (path_join (srcDir_of w) (dirent_name tagDir)) (dirent_name entry)))
        \<in> set (events (main w a)))
   \<and> (ReadDir p \<in> set (events (main w a)) \<longrightarrow>
        p = srcDir_of w
      \<or> (\<exists>tagDirs tagDir. fs_readdir w (srcDir_of w) = Inr tagDirs
            \<and> tagDir \<in> set tagDirs \<and> isDirectory tagDir
            \<and> p = path_join (srcDir_of w) (dirent_name tagDir)))
   \<and> \<not> endsWith (ascii ''POST.MD'') (ascii ''.md'')"
proof (intro conjI impI)
  assume "ExecSync cmd \<in> set (events (main w a))"
  then have "cmd \<in> set (exec_commands (events (main w a)))"
    by (simp add: ExecSync_mem)
  then show "\<exists>tagDirs tagDir entries entry.
          fs_readdir w (srcDir_of w) = Inr tagDirs
        \<and> tagDir \<in> set tagDirs \<and> isDirectory tagDir
        \<and> fs_readdir w (path_join (srcDir_of w) (dirent_name tagDir)) = Inr entries
        \<and> entry \<in> set entries \<and> endsWith (dirent_name entry) (ascii ''.md'')
        \<and> cmd = pandoc_command
              (path_join (path_join (srcDir_of w) (dirent_name tagDir)) (dirent_name entry))"
    by (rule command_origin)
next
  assume "fs_readdir w (srcDir_of w) = Inr tagDirs
        \<and> readable (fs_readdir w) (srcDir_of w) (filter isDirectory tagDirs)
        \<and> tagDir \<in> set tagDirs \<and> isDirectory tagDir
        \<and> fs_readdir w (path_join (srcDir_of w) (dirent_name tagDir)) = Inr entries
        \<and> entry \<in> set entries \<and> endsWith (dirent_name entry) (ascii ''.md'')"
  then have "pandoc_command
          (path_join (path_join (srcDir_of w) (dirent_name tagDir)) (dirent_name entry))
        \<in> set (exec_commands (events (main w a)))"
    using command_issued [of w tagDirs tagDir entries entry a] by blast
  then show "ExecSync (pandoc_command
          (path_join (path_join (srcDir_of w) (dirent_name tagDir)) (dirent_name entry)))
        \<in> set (events (main w a))"
    by (simp add: ExecSync_mem)
next
  assume "ReadDir p \<in> set (events (main w a))"
  then have "p \<in> set (fs_reads (events (main w a)))"
    by (simp add: ReadDir_mem)
  then show "p = srcDir_of w
      \<or> (\<exists>tagDirs tagDir. fs_readdir w (srcDir_of w) = Inr tagDirs
            \<and> tagDir \<in> set tagDirs \<and> isDirectory tagDir
            \<and> p = path_join (srcDir_of w) (dirent_name tagDir))"
    by (rule read_origin)
next
  show "\<not> endsWith (ascii ''POST.MD'') (ascii ''.md'')"
    by (simp add: endsWith_def ascii_def)
qed

text \<open>Claim C6 on \<open>demo_world\<close>.\<close>

theorem C6_witness:
  "ExecSync (pandoc_command (ascii ''/app/src/tagA/broken.md'')) \<in> set (events (main demo_world 0))
   \<and> (\<exists>tagDirs tagDir entries entry.
          fs_readdir demo_world (srcDir_of demo_world) = Inr tagDirs
        \<and> tagDir \<in> set tagDirs \<and> isDirectory tagDir
        \<and> fs_readdir demo_world (path_join (srcDir_of demo_world) (dirent_name tagDir)) = Inr entries
        \<and> entry \<in> set entries \<and> endsWith (dirent_name entry) (ascii ''.md'')
        \<and> pandoc_command (ascii ''/app/src/tagA/broken.md'') = pandoc_command
              (path_join (path_join (srcDir_of demo_world) (dirent_name tagDir)) (dirent_name entry)))
   \<and> fs_readdir demo_world (srcDir_of demo_world) =
       Inr [directory ''tagA'', regular ''README.txt'', directory ''tagB'']
   \<and> readable (fs_readdir demo_world) (srcDir_of demo_world)
       (filter isDirectory [directory ''tagA'', regular ''README.txt'', directory ''tagB''])
   \<and> directory ''tagB'' \<in> set [directory ''tagA'', regular ''README.txt'', directory ''tagB'']
   \<and> isDirectory (directory ''tagB'')
   \<and> fs_readdir demo_world (path_join (srcDir_of demo_world) (dirent_name (directory ''tagB'')))
       = Inr [regular ''post2.md'']
   \<and> regular ''post2.md'' \<in> set [regular ''post2.md'']
   \<and> endsWith (dirent_name (regular ''post2.md'')) (ascii ''.md'')
   \<and> ExecSync (pandoc_command
          (path_join (path_join (srcDir_of demo_world) (dirent_name (directory ''tagB'')))
             (dirent_name (regular ''post2.md''))))
        \<in> set (events (main demo_world 0))
   \<and> ReadDir (ascii ''/app/src/tagB'') \<in> set (events (main demo_world 0))
   \<and> (ascii ''/app/src/tagB'' = srcDir_of demo_world
      \<or> (\<exists>tagDirs tagDir. fs_readdir demo_world (srcDir_of demo_world) = Inr tagDirs
            \<and> tagDir \<in> set tagDirs \<and> isDirectory tagDir
            \<and> ascii ''/app/src/tagB'' = path_join (srcDir_of demo_world) (dirent_name tagDir)))"
proof -
  note c6 = C6_scanner_selects_direct_md_entries
    [where w = demo_world and a = 0
       and cmd = "pandoc_command (ascii ''/app/src/tagA/broken.md'')"
       and tagDirs = "[directory ''tagA'', regular ''README.txt'', directory ''tagB'']"
       and tagDir = "directory ''tagB''" and entries = "[regular ''post2.md'']"
       and entry = "regular ''post2.md''" and p = "ascii ''/app/src/tagB''"]
  have h1: "ExecSync (pandoc_command (ascii ''/app/src/tagA/broken.md''))
      \<in> set (events (main demo_world 0))"
    by (simp add: ExecSync_mem demo_commands)
  have h2: "fs_readdir demo_world (srcDir_of demo_world) =
       Inr [directory ''tagA'', regular ''README.txt'', directory ''tagB'']"
    by (simp add: demo_srcDir demo_root)
  have h3: "directory ''tagB'' \<in> set [directory ''tagA'', regular ''README.txt'', directory ''tagB'']"
    by simp
  have h4: "isDirectory (directory ''tagB'')"
    by (simp add: directory_def)
  have h5: "fs_readdir demo_world (path_join (srcDir_of demo_world) (dirent_name (directory ''tagB'')))
       = Inr [regular ''post2.md'']"
    by (simp add: world_eval)
  have h6: "regular ''post2.md'' \<in> set [regular ''post2.md'']"
    by simp
  have h7: "endsWith (dirent_name (regular ''post2.md'')) (ascii ''.md'')"
    by (simp add: world_eval)
  have h8: "ReadDir (ascii ''/app/src/tagB'') \<in> set (events (main demo_world 0))"
    by (simp add: ReadDir_mem demo_reads)
  from c6 h1 have c1: "\<exists>tagDirs tagDir entries entry.
          fs_readdir demo_world (srcDir_of demo_world) = Inr tagDirs
        \<and> tagDir \<in> set tagDirs \<and> isDirectory tagDir
        \<and> fs_readdir demo_world (path_join (srcDir_of demo_world) (dirent_name tagDir)) = Inr entries
        \<and> entry \<in> set entries \<and> endsWith (dirent_name entry) (ascii ''.md'')
        \<and> pandoc_command (ascii ''/app/src/tagA/broken.md'') = pandoc_command
              (path_join (path_join (srcDir_of demo_world) (dirent_name tagDir)) (dirent_name entry))"
    by (elim conjE) (erule mp)
  from c6 h2 demo_readable h3 h4 h5 h6 h7 have c2: "ExecSync (pandoc_command
          (path_join (path_join (srcDir_of demo_world) (dirent_name (directory ''tagB'')))
             (dirent_name (regular ''post2.md''))))
        \<in> set (events (main demo_world 0))"
    by (elim conjE) (erule mp, intro conjI)
  from c6 h8 have c3: "ascii ''/app/src/tagB'' = srcDir_of demo_world
      \<or> (\<exists>tagDirs tagDir. fs_readdir demo_world (srcDir_of demo_world) = Inr tagDirs
            \<and> tagDir \<in> set tagDirs \<and> isDirectory tagDir
            \<and> ascii ''/app/src/tagB'' = path_join (srcDir_of demo_world) (dirent_name tagDir))"
    by (elim conjE) (erule mp)
  from h1 c1 h2 demo_readable h3 h4 h5 h6 h7 c2 h8 c3 show ?thesis
    by (intro conjI)
qed




text \<open>
  Claim C8. Every API call of a run is \<^verbatim>\<open>posts.add\<close> with the \<^verbatim>\<open>source: 'html'\<close> option. A
  second run on the same inputs, started from the state the first run left the API in,
  sends the same requests again; more generally the requests do not depend on the API's
  state or answers.
\<close>

theorem C8_only_create_calls_and_no_deduplication:
  "(Api req \<in> set (events (main w a)) \<longrightarrow>
      (\<exists>payload. req = PostsAdd payload \<lparr>source = ascii ''html''\<rparr>))
   \<and> api_requests (events (main w (api_state (main w a)))) = api_requests (events (main w a))
   \<and> api_requests (events (main (w\<lparr>api_posts_add := api\<rparr>) a')) = api_requests (events (main w a))"
proof (intro conjI impI)
  assume "Api req \<in> set (events (main w a))"
  then have "req \<in> set (api_requests (events (main w a)))"
    by (simp add: Api_mem)
  from request_origin [OF this] obtain title html tag where
    "req = create_post title html tag (status_of w)"
    by blast
  then show "\<exists>payload. req = PostsAdd payload \<lparr>source = ascii ''html''\<rparr>"
    by (simp add: create_post_def)
next
  show "api_requests (events (main w (api_state (main w a)))) = api_requests (events (main w a))"
    by (simp add: main_requests)
next
  show "api_requests (events (main (w\<lparr>api_posts_add := api\<rparr>) a')) =
      api_requests (events (main w a))"
    by (rule main_requests_indep)
qed

text \<open>Claim C8 on \<open>demo_world\<close>.\<close>

theorem C8_witness:
  "Api (create_post (ascii ''post1'') (ascii ''<p>one</p>'') (ascii ''tagA'') (ascii ''published''))
     \<in> set (events (main demo_world 0))
   \<and> (\<exists>payload.
         create_post (ascii ''post1'') (ascii ''<p>one</p>'') (ascii ''tagA'') (ascii ''published'')
           = PostsAdd payload \<lparr>source = ascii ''html''\<rparr>)
   \<and> api_requests (events (main demo_world (api_state (main demo_world 0))))
       = api_requests (events (main demo_world 0))
   \<and> api_requests (events (main (demo_world\<lparr>api_posts_add :=
          (\<lambda>n p opts. (Inl (Error (ascii ''exists'')), n))\<rparr>) 2))
       = api_requests (events (main demo_world 0))"
proof -
  note c8 = C8_only_create_calls_and_no_deduplication
    [where w = demo_world and a = 0 and a' = 2
       and req = "create_post (ascii ''post1'') (ascii ''<p>one</p>'') (ascii ''tagA'')
                    (ascii ''published'')"
       and api = "\<lambda>n p opts. (Inl (Error (ascii ''exists'')), n)"]
  have h: "Api (create_post (ascii ''post1'') (ascii ''<p>one</p>'') (ascii ''tagA'')
        (ascii ''published'')) \<in> set (events (main demo_world 0))"
    by (simp add: Api_mem demo_requests)
  from c8 h have c1: "\<exists>payload.
         create_post (ascii ''post1'') (ascii ''<p>one</p>'') (ascii ''tagA'') (ascii ''published'')
           = PostsAdd payload \<lparr>source = ascii ''html''\<rparr>"
    by (elim conjE) (erule mp)
  from c8 have c2: "api_requests (events (main demo_world (api_state (main demo_world 0))))
       = api_requests (events (main demo_world 0))"
    by (elim conjE)
  from c8 have c3: "api_requests (events (main (demo_world\<lparr>api_posts_add :=
          (\<lambda>n p opts. (Inl (Error (ascii ''exists'')), n))\<rparr>) 2))
       = api_requests (events (main demo_world 0))"
    by (elim conjE)
  from h c1 c2 c3 show ?thesis by (intro conjI)
qed

text \<open>
  Claim C9, amended. The content root is not configurable. In every run in which the API
  client is constructed, the first directory listed is \<^verbatim>\<open>src\<close> resolved against the script's
  own directory (so its path always ends with \<^verbatim>\<open>src\<close>), and the directories listed are the
  same under every environment in which the client is constructed. Every directory a run
  lists is that root or one of its first-level subdirectories. A run whose client
  construction throws ends there and lists nothing.
\<close>

theorem C9_content_root_is_fixed:
  "(newGhostAdminApi (client_config_of w) = Inr () \<longrightarrow>
      fs_reads (events (script newGhostAdminApi w a)) \<noteq> []
    \<and> hd (fs_reads (events (script newGhostAdminApi w a))) = path_resolve (dirname w) (ascii ''src'')
    \<and> endsWith (hd (fs_reads (events (script newGhostAdminApi w a)))) (ascii ''src''))
   \<and> (newGhostAdminApi (client_config_of w) = Inr ()
        \<and> newGhostAdminApi (client_config_of (w\<lparr>process_env := env\<rparr>)) = Inr () \<longrightarrow>
      fs_reads (events (script newGhostAdminApi (w\<lparr>process_env := env\<rparr>) a)) =
      fs_reads (events (script newGhostAdminApi w a)))
   \<and> (ReadDir p \<in> set (events (script newGhostAdminApi w a)) \<longrightarrow>
        p = path_resolve (dirname w) (ascii ''src'')
      \<or> (\<exists>tagDirs tagDir.
            fs_readdir w (path_resolve (dirname w) (ascii ''src'')) = Inr tagDirs
          \<and> tagDir \<in> set tagDirs \<and> isDirectory tagDir
          \<and> p = path_join (path_resolve (dirname w) (ascii ''src'')) (dirent_name tagDir)))
   \<and> (newGhostAdminApi (client_config_of w) = Inl err \<longrightarrow>
        script newGhostAdminApi w a = (Inl err, a, []))"
proof (intro conjI impI)
  assume c: "newGhostAdminApi (client_config_of w) = Inr ()"
  show "fs_reads (events (script newGhostAdminApi w a)) \<noteq> []"
    by (simp add: script_def c main_reads listed_def)
  show "hd (fs_reads (events (script newGhostAdminApi w a))) =
      path_resolve (dirname w) (ascii ''src'')"
    by (simp add: script_def c main_reads listed_def srcDir_of_def)
  show "endsWith (hd (fs_reads (events (script newGhostAdminApi w a)))) (ascii ''src'')"
    by (simp add: script_def c main_reads listed_def srcDir_of_def path_resolve_def
        endsWith_append)
next
  assume "newGhostAdminApi (client_config_of w) = Inr ()
      \<and> newGhostAdminApi (client_config_of (w\<lparr>process_env := env\<rparr>)) = Inr ()"
  then have c: "newGhostAdminApi (client_config_of w) = Inr ()"
    and c': "newGhostAdminApi (client_config_of (w\<lparr>process_env := env\<rparr>)) = Inr ()"
    by simp_all
  have "fs_reads (events (main (w\<lparr>process_env := env\<rparr>) a)) = fs_reads (events (main w a))"
    using main_reads_indep [where w = w and env = env and conv = "execSync w"
        and api = "api_posts_add w" and a' = a and a = a]
    by simp
  then show "fs_reads (events (script newGhostAdminApi (w\<lparr>process_env := env\<rparr>) a)) =
      fs_reads (events (script newGhostAdminApi w a))"
    by (simp add: script_def c c')
next
  assume p: "ReadDir p \<in> set (events (script newGhostAdminApi w a))"
  have "p \<in> set (fs_reads (events (main w a)))"
  proof (cases "newGhostAdminApi (client_config_of w)")
    case (Inl err)
    with p show ?thesis by (simp add: script_def events_def)
  next
    case (Inr u)
    with p show ?thesis by (simp add: script_def ReadDir_mem)
  qed
  from read_origin [OF this]
  show "p = path_resolve (dirname w) (ascii ''src'')
      \<or> (\<exists>tagDirs tagDir.
            fs_readdir w (path_resolve (dirname w) (ascii ''src'')) = Inr tagDirs
          \<and> tagDir \<in> set tagDirs \<and> isDirectory tagDir
          \<and> p = path_join (path_resolve (dirname w) (ascii ''src'')) (dirent_name tagDir))"
    by (simp add: srcDir_of_def)
next
  assume "newGhostAdminApi (client_config_of w) = Inl err"
  then show "script newGhostAdminApi w a = (Inl err, a, [])"
    by (simp add: script_def)
qed

text \<open>
  Claim C9, amended, on \<open>blog_world\<close> (the client is constructed; setting
  \<^verbatim>\<open>CONTENT_ROOT\<close> changes nothing) and on \<open>demo_world\<close> (no client configuration: the
  constructor throws and nothing is listed).
\<close>

theorem C9_witness:
  "strict_client (client_config_of blog_world) = Inr ()
   \<and> fs_reads (events (script strict_client blog_world 0)) \<noteq> []
   \<and> hd (fs_reads (events (script strict_client blog_world 0))) = ascii ''/app/src''
   \<and> endsWith (hd (fs_reads (events (script strict_client blog_world 0)))) (ascii ''src'')
   \<and> strict_client (client_config_of (blog_world\<lparr>process_env := configured_env\<rparr>)) = Inr ()
   \<and> fs_reads (events (script strict_client (blog_world\<lparr>process_env := configured_env\<rparr>) 0))
       = [ascii ''/app/src'', ascii ''/app/src/tagA'', ascii ''/app/src/tagB'']
   \<and> ReadDir (ascii ''/app/src/tagB'') \<in> set (events (script strict_client blog_world 0))
   \<and> (ascii ''/app/src/tagB'' = path_resolve (dirname blog_world) (ascii ''src'')
      \<or> (\<exists>tagDirs tagDir.
            fs_readdir blog_world (path_resolve (dirname blog_world) (ascii ''src'')) = Inr tagDirs
          \<and> tagDir \<in> set tagDirs \<and> isDirectory tagDir
          \<and> ascii ''/app/src/tagB'' =
              path_join (path_resolve (dirname blog_world) (ascii ''src'')) (dirent_name tagDir)))
   \<and> strict_client (client_config_of demo_world)
       = Inl (Error (ascii ''@tryghost/admin-api Config Invalid''))
   \<and> script strict_client demo_world 0
       = (Inl (Error (ascii ''@tryghost/admin-api Config Invalid'')), 0, [])"
proof -
  note c9 = C9_content_root_is_fixed
    [where newGhostAdminApi = strict_client and w = blog_world and a = 0
       and env = configured_env and p = "ascii ''/app/src/tagB''"
       and err = "Error (ascii ''@tryghost/admin-api Config Invalid'')"]
  note c9' = C9_content_root_is_fixed
    [where newGhostAdminApi = strict_client and w = demo_world and a = 0
       and env = configured_env and p = "ascii ''/app/src/tagB''"
       and err = "Error (ascii ''@tryghost/admin-api Config Invalid'')"]
  have h1: "strict_client (client_config_of blog_world) = Inr ()"
    by (rule blog_client)
  have h2: "strict_client (client_config_of (blog_world\<lparr>process_env := configured_env\<rparr>)) = Inr ()"
    by (simp add: client_eval ascii_def)
  have h3: "ReadDir (ascii ''/app/src/tagB'') \<in> set (events (script strict_client blog_world 0))"
    by (simp add: script_def h1 ReadDir_mem blog_reads)
  have h4: "strict_client (client_config_of demo_world)
       = Inl (Error (ascii ''@tryghost/admin-api Config Invalid''))"
    by (simp add: client_eval demo_world_def ascii_def)
  from c9 h1 have c1: "fs_reads (events (script strict_client blog_world 0)) \<noteq> []
    \<and> hd (fs_reads (events (script strict_client blog_world 0))) =
        path_resolve (dirname blog_world) (ascii ''src'')
    \<and> endsWith (hd (fs_reads (events (script strict_client blog_world 0)))) (ascii ''src'')"
    by (elim conjE) (erule mp)
  have src: "path_resolve (dirname blog_world) (ascii ''src'') = ascii ''/app/src''"
    by (simp add: blog_world_def world_eval)
  from c9 h1 h2 have "fs_reads (events (script strict_client
        (blog_world\<lparr>process_env := configured_env\<rparr>) 0)) =
      fs_reads (events (script strict_client blog_world 0))"
    by (elim conjE) (erule mp, intro conjI)
  then have c2: "fs_reads (events (script strict_client
        (blog_world\<lparr>process_env := configured_env\<rparr>) 0))
       = [ascii ''/app/src'', ascii ''/app/src/tagA'', ascii ''/app/src/tagB'']"
    by (simp add: script_def h1 blog_reads)
  from c9 h3 have c3: "ascii ''/app/src/tagB'' = path_resolve (dirname blog_world) (ascii ''src'')
      \<or> (\<exists>tagDirs tagDir.
            fs_readdir blog_world (path_resolve (dirname blog_world) (ascii ''src'')) = Inr tagDirs
          \<and> tagDir \<in> set tagDirs \<and> isDirectory tagDir
          \<and> ascii ''/app/src/tagB'' =
              path_join (path_resolve (dirname blog_world) (ascii ''src'')) (dirent_name tagDir))"
    by (elim conjE) (erule mp)
  from c9' h4 have c4: "script strict_client demo_world 0
       = (Inl (Error (ascii ''@tryghost/admin-api Config Invalid'')), 0, [])"
    by (elim conjE) (erule mp)
  from c1 have c1a: "fs_reads (events (script strict_client blog_world 0)) \<noteq> []"
    by (elim conjE)
  from c1 have "hd (fs_reads (events (script strict_client blog_world 0))) =
      path_resolve (dirname blog_world) (ascii ''src'')"
    by (elim conjE)
  from this src
  have c1b: "hd (fs_reads (events (script strict_client blog_world 0))) = ascii ''/app/src''"
    by (rule trans)
  from c1
  have c1c: "endsWith (hd (fs_reads (events (script strict_client blog_world 0)))) (ascii ''src'')"
    by (elim conjE)
  from h1 c1a c1b c1c h2 c2 h3 c3 h4 c4 show ?thesis
    by (intro conjI)
qed

text \<open>
  Claim C9 as stated fails: with a well-formed client configuration and \<^verbatim>\<open>CONTENT_ROOT\<close>
  set to \<^verbatim>\<open>/data\<close>, the run of the script in \<^verbatim>\<open>/app\<close> lists \<^verbatim>\<open>/app/src\<close> only, and
  publishes nothing of \<^verbatim>\<open>/data\<close>.
\<close>

theorem C9_counterexample:
  "strict_client (client_config_of configured_world) = Inr ()
   \<and> process_env configured_world (ascii ''CONTENT_ROOT'') = Some (ascii ''/data'')
   \<and> fs_reads (events (script strict_client configured_world 0)) = [ascii ''/app/src'']
   \<and> ascii ''/data'' \<notin> set (fs_reads (events (script strict_client configured_world 0)))
   \<and> api_requests (events (script strict_client configured_world 0)) = []"
proof -
  have c: "strict_client (client_config_of configured_world) = Inr ()"
    by (simp add: client_eval ascii_def)
  have e: "process_env configured_world (ascii ''CONTENT_ROOT'') = Some (ascii ''/data'')"
    by (simp add: client_eval ascii_def)
  have r: "fs_reads (events (main configured_world 0)) = [ascii ''/app/src'']"
    by (simp add: main_reads world_eval configured_world_def)
  have q: "api_requests (events (main configured_world 0)) = []"
    by (simp add: main_requests world_eval configured_world_def)
  have n: "ascii ''/data'' \<notin> set [ascii ''/app/src'']"
    by (simp add: ascii_def)
  from c e r q n show ?thesis
    by (simp add: script_def)
qed



end
